theory Spec2Isabelle
  imports Complex_Main
begin

section \<open>Python strings and integers\<close>

text \<open>
  TickSnap is a Python program. Its strings are modelled as \<^typ>\<open>string\<close>, one
  \<^typ>\<open>char\<close> per code point, for ASCII text: \<open>str.upper\<close>, \<open>str.lower\<close> and
  \<open>str.strip\<close> are written out on the ASCII code points and leave every other
  character alone. Python's unbounded integers are \<^typ>\<open>int\<close>.
\<close>

definition py_ord :: "char \<Rightarrow> int" where
  "py_ord c = of_char c"

definition upper_char :: "char \<Rightarrow> char" where
  "upper_char c = (if 97 \<le> py_ord c \<and> py_ord c \<le> 122 then char_of (py_ord c - 32) else c)"

definition lower_char :: "char \<Rightarrow> char" where
  "lower_char c = (if 65 \<le> py_ord c \<and> py_ord c \<le> 90 then char_of (py_ord c + 32) else c)"

definition upper :: "string \<Rightarrow> string" where
  "upper s = map upper_char s"

definition lower :: "string \<Rightarrow> string" where
  "lower s = map lower_char s"

text \<open>
  \<open>str.strip()\<close> removes leading and trailing whitespace; on ASCII that is the code
  points 9 to 13, 28 to 31 and 32.
\<close>

definition is_space :: "char \<Rightarrow> bool" where
  "is_space c = ((9 \<le> py_ord c \<and> py_ord c \<le> 13) \<or> (28 \<le> py_ord c \<and> py_ord c \<le> 32))"

definition strip :: "string \<Rightarrow> string" where
  "strip s = rev (dropWhile is_space (rev (dropWhile is_space s)))"

section \<open>Column letters (sheet.py)\<close>

text \<open>
  \<^verbatim>\<open>
  def col_to_index(col_letter: str) -> int:
      index = 0
      power = 1
      for char_val in reversed(col_letter.upper()):
          index += (ord(char_val) - ord('A') + 1) * power
          power *= 26
      return index - 1
  \<close>
  The loop carries \<open>index\<close> and \<open>power\<close> (here \<open>pw\<close>) over the reversed, upper-cased string.
\<close>

fun col_loop :: "string \<Rightarrow> int \<Rightarrow> int \<Rightarrow> int" where
  "col_loop [] index pw = index"
| "col_loop (char_val # rest) index pw =
     col_loop rest (index + (py_ord char_val - py_ord (CHR ''A'') + 1) * pw) (pw * 26)"

definition col_to_index :: "string \<Rightarrow> int" where
  "col_to_index col_letter = col_loop (rev (upper col_letter)) 0 1 - 1"

definition is_upper_letter :: "char \<Rightarrow> bool" where
  "is_upper_letter c = (65 \<le> py_ord c \<and> py_ord c \<le> 90)"

text \<open>
  Modelled from the spec: the inverse of \<open>col_to_index\<close>, which the repository does
  not contain. It is the base-26 encoding with the digits \<open>A\<close> = 1 to \<open>Z\<close> = 26 of a
  zero-based index, the encoding spreadsheets use for their column letters.
\<close>

function index_to_col :: "int \<Rightarrow> string" where
  "index_to_col n =
     (if n < 0 then []
      else if n < 26 then [char_of (n + 65)]
      else index_to_col (n div 26 - 1) @ [char_of (n mod 26 + 65)])"
  by pat_completeness auto
termination
  by (relation "measure nat") auto

declare index_to_col.simps [simp del]

section \<open>Python built-ins used by the ledger code\<close>

datatype value_error =
    NoDataInRow
  | MissingIdArticulo
  | MissingCodigoArticulo
  | InvalidImporteCuota
  | InvalidTotalCuotas
  | InvalidCantidadCuotasPagadas

text \<open>
  The exceptions the code raises or lets through. \<open>ValueError\<close> carries which of the
  source's messages it was raised with.
\<close>

datatype error =
    ConnectionError
  | ValueError value_error
  | IndexError
  | RuntimeError

text \<open>
  \<open>xs[i]\<close>: a negative index counts from the end, and an index out of range raises
  \<open>IndexError\<close>.
\<close>

definition py_index :: "'a list \<Rightarrow> int \<Rightarrow> error + 'a" where
  "py_index xs i =
     (if 0 \<le> i \<and> i < int (length xs) then Inr (xs ! nat i)
      else if i < 0 \<and> - int (length xs) \<le> i then Inr (xs ! nat (int (length xs) + i))
      else Inl IndexError)"

definition is_digit :: "char \<Rightarrow> bool" where
  "is_digit c = (48 \<le> py_ord c \<and> py_ord c \<le> 57)"

definition dec_value :: "string \<Rightarrow> int" where
  "dec_value ds = foldl (\<lambda>acc c. acc * 10 + (py_ord c - 48)) 0 ds"

text \<open>
  \<open>int(s)\<close> and \<open>float(s)\<close> trim the whitespace of C's \<open>isspace\<close> (9 to 13 and 32),
  and allow one underscore between two digits.
\<close>

definition is_c_space :: "char \<Rightarrow> bool" where
  "is_c_space c = ((9 \<le> py_ord c \<and> py_ord c \<le> 13) \<or> py_ord c = 32)"

definition c_strip :: "string \<Rightarrow> string" where
  "c_strip s = rev (dropWhile is_c_space (rev (dropWhile is_c_space s)))"

fun underscores_ok :: "char \<Rightarrow> string \<Rightarrow> bool" where
  "underscores_ok prev [] = (prev \<noteq> CHR ''_'')"
| "underscores_ok prev (c # cs) =
     ((if c = CHR ''_'' then is_digit prev
       else if prev = CHR ''_'' then is_digit c else True)
      \<and> underscores_ok c cs)"

definition drop_underscores :: "string \<Rightarrow> string" where
  "drop_underscores s = filter (\<lambda>c. c \<noteq> CHR ''_'') s"

definition parse_sign :: "string \<Rightarrow> int \<times> string" where
  "parse_sign s =
     (case s of
        [] \<Rightarrow> (1, [])
      | c # cs \<Rightarrow>
          if c = CHR ''-'' then (- 1, cs)
          else if c = CHR ''+'' then (1, cs)
          else (1, s))"

text \<open>
  \<open>int(s)\<close> in base 10: optional sign, then digits. \<open>None\<close> stands for the
  \<open>ValueError\<close> it raises.
\<close>

definition py_int :: "string \<Rightarrow> int option" where
  "py_int s =
     (let (sg, body) = parse_sign (c_strip s)
      in if body \<noteq> [] \<and> underscores_ok (CHR 0x00) body
            \<and> list_all is_digit (drop_underscores body)
         then Some (sg * dec_value (drop_underscores body))
         else None)"

text \<open>
  \<open>float(s)\<close>. Python's floats are modelled as exact rationals: the decimal numeral
  is read without rounding, and the spellings \<open>inf\<close>, \<open>infinity\<close> and \<open>nan\<close>, which
  have no rational value, are not read. The numeral is an optional sign, digits with
  an optional fraction (\<open>12\<close>, \<open>12.\<close>, \<open>12.5\<close>, \<open>.5\<close>) and an optional exponent.
\<close>

definition parse_exponent :: "string \<Rightarrow> int option" where
  "parse_exponent s =
     (case s of
        [] \<Rightarrow> Some 0
      | c # cs \<Rightarrow>
          if c = CHR ''e'' \<or> c = CHR ''E''
          then (let (sg, ds) = parse_sign cs
                in if ds \<noteq> [] \<and> list_all is_digit ds then Some (sg * dec_value ds) else None)
          else None)"

definition scale10 :: "rat \<Rightarrow> int \<Rightarrow> rat" where
  "scale10 m e = (if 0 \<le> e then m * 10 ^ nat e else m / 10 ^ nat (- e))"

definition py_float_plain :: "string \<Rightarrow> rat option" where
  "py_float_plain s =
     (let (sg, s1) = parse_sign s;
          ip = takeWhile is_digit s1;
          r1 = dropWhile is_digit s1;
          (fp, r2) =
            (case r1 of
               [] \<Rightarrow> ([], [])
             | c # r \<Rightarrow>
                 if c = CHR ''.'' then (takeWhile is_digit r, dropWhile is_digit r)
                 else ([], r1))
      in if ip = [] \<and> fp = [] then None
         else (case parse_exponent r2 of
                 None \<Rightarrow> None
               | Some e \<Rightarrow>
                   Some (scale10 (of_int (sg * dec_value (ip @ fp))) (e - int (length fp)))))"

definition py_float :: "string \<Rightarrow> rat option" where
  "py_float s =
     (if underscores_ok (CHR 0x00) s then py_float_plain (c_strip (drop_underscores s))
      else None)"

text \<open>\<open>str(n)\<close> of an integer, and the format specifications \<open>03d\<close> and \<open>04d\<close>.\<close>

definition digit_char :: "nat \<Rightarrow> char" where
  "digit_char d = ''0123456789'' ! d"

function show_nat :: "nat \<Rightarrow> string" where
  "show_nat n =
     (if n < 10 then [digit_char n]
      else show_nat (n div 10) @ [digit_char (n mod 10)])"
  by pat_completeness auto
termination
  by (relation "measure id") auto

declare show_nat.simps [simp del]

definition py_str :: "int \<Rightarrow> string" where
  "py_str n = (if n < 0 then CHR ''-'' # show_nat (nat (- n)) else show_nat (nat n))"

definition fmt_d :: "nat \<Rightarrow> int \<Rightarrow> string" where
  "fmt_d width n =
     (let sign = (if n < 0 then ''-'' else '''');
          digits = show_nat (nat \<bar>n\<bar>)
      in sign @ replicate (width - length sign - length digits) (CHR ''0'') @ digits)"

text \<open>
  The format specification \<open>.2f\<close>: two decimals, the last one rounded half to even.
\<close>

definition round_half_even :: "rat \<Rightarrow> int" where
  "round_half_even x =
     (let f = \<lfloor>x\<rfloor>; d = x - of_int f
      in if d < 1 / 2 then f
         else if 1 / 2 < d then f + 1
         else if even f then f else f + 1)"

definition fmt_2f :: "rat \<Rightarrow> string" where
  "fmt_2f x =
     (let c = nat (round_half_even (\<bar>x\<bar> * 100));
          cents = show_nat (c mod 100)
      in (if x < 0 then ''-'' else '''') @ show_nat (c div 100) @ ''.''
         @ replicate (2 - length cents) (CHR ''0'') @ cents)"

definition replace_char :: "char \<Rightarrow> char \<Rightarrow> string \<Rightarrow> string" where
  "replace_char old new s = map (\<lambda>c. if c = old then new else c) s"

definition remove_char :: "char \<Rightarrow> string \<Rightarrow> string" where
  "remove_char old s = filter (\<lambda>c. c \<noteq> old) s"

text \<open>
  Sequencing of calls that may raise: the first exception raised is the result.
\<close>

definition then_result :: "error + 'a \<Rightarrow> ('a \<Rightarrow> error + 'b) \<Rightarrow> error + 'b" where
  "then_result r f = (case r of Inl e \<Rightarrow> Inl e | Inr v \<Rightarrow> f v)"

section \<open>The ledger (sheet.py)\<close>

text \<open>
  The spreadsheet, as the code reads it through gspread: \<open>get_values\<close> of a range
  and \<open>row_values\<close> of a row number. \<open>connect_to_sheet()\<close> returns the sheet or
  \<open>None\<close>; its result is the argument \<open>sheet\<close> of the functions below, and it is the
  same for every call of one payment workflow. Calls that reach the spreadsheet are
  taken to succeed, as are the chat transport and the renderer.
\<close>

record sheet =
  get_values :: "string \<Rightarrow> string list list"
  row_values :: "int \<Rightarrow> string list"

definition COL_MASTER_NOMBRE :: string where "COL_MASTER_NOMBRE = ''M''"
definition COL_MASTER_APELLIDO :: string where "COL_MASTER_APELLIDO = ''N''"
definition COL_MASTER_ARTICULO :: string where "COL_MASTER_ARTICULO = ''P''"
definition COL_MASTER_CODIGO :: string where "COL_MASTER_CODIGO = ''Q''"
definition COL_MASTER_ID_ARTICULO :: string where "COL_MASTER_ID_ARTICULO = ''R''"
definition COL_MASTER_COMERCIO :: string where "COL_MASTER_COMERCIO = ''S''"
definition COL_MASTER_DIRECCION :: string where "COL_MASTER_DIRECCION = ''T''"
definition COL_MASTER_TOTAL_CREDITO :: string where "COL_MASTER_TOTAL_CREDITO = ''U''"
definition COL_MASTER_IMPORTE_CUOTA :: string where "COL_MASTER_IMPORTE_CUOTA = ''V''"
definition COL_MASTER_TOTAL_CUOTAS :: string where "COL_MASTER_TOTAL_CUOTAS = ''W''"
definition COL_MASTER_CUOTAS_ABONADAS :: string where "COL_MASTER_CUOTAS_ABONADAS = ''X''"

definition COL_LOG_FECHA :: string where "COL_LOG_FECHA = ''A''"
definition COL_LOG_ARTICULO :: string where "COL_LOG_ARTICULO = ''D''"
definition COL_LOG_CANT_CUOTAS_PAGADAS :: string where "COL_LOG_CANT_CUOTAS_PAGADAS = ''I''"

subsection \<open>find_client_credits\<close>

record credit_match =
  match_row_index :: int
  match_articulo :: string
  match_id_articulo :: string
  match_codigo :: string

text \<open>The two data-quality warnings the scan logs, with the sheet row they name.\<close>

datatype warning = SkippedMissingId int | SkippedMissingCodigo int

definition base_col_index :: int where
  "base_col_index = col_to_index COL_MASTER_NOMBRE"

definition idx_nombre_rel :: int where
  "idx_nombre_rel = col_to_index COL_MASTER_NOMBRE - base_col_index"

definition idx_apellido_rel :: int where
  "idx_apellido_rel = col_to_index COL_MASTER_APELLIDO - base_col_index"

definition idx_articulo_rel :: int where
  "idx_articulo_rel = col_to_index COL_MASTER_ARTICULO - base_col_index"

definition idx_codigo_rel :: int where
  "idx_codigo_rel = col_to_index COL_MASTER_CODIGO - base_col_index"

definition idx_id_articulo_rel :: int where
  "idx_id_articulo_rel = col_to_index COL_MASTER_ID_ARTICULO - base_col_index"

text \<open>
  \<^verbatim>\<open>row_values[idx].strip() if idx < len(row_values) else "N/A"\<close>
\<close>

definition cell_or_na :: "string list \<Rightarrow> int \<Rightarrow> error + string" where
  "cell_or_na row idx =
     (if idx < int (length row)
      then (case py_index row idx of Inl e \<Rightarrow> Inl e | Inr v \<Rightarrow> Inr (strip v))
      else Inr ''N/A'')"

text \<open>
  The body of the loop \<^verbatim>\<open>for i, row_values in enumerate(all_data)\<close>: the state is
  the list \<open>matches\<close> and the warnings logged so far; \<open>continue\<close> returns the state
  unchanged.
\<close>

definition scan_row ::
  "string \<Rightarrow> string \<Rightarrow> int \<Rightarrow> string list \<Rightarrow> credit_match list \<times> warning list
     \<Rightarrow> error + (credit_match list \<times> warning list)" where
  "scan_row nombre_buscar apellido_buscar i row st =
     (if int (length row)
           \<le> max idx_nombre_rel (max idx_apellido_rel (max idx_articulo_rel
                (max idx_codigo_rel idx_id_articulo_rel)))
      then Inr st
      else
        then_result (py_index row idx_nombre_rel) (\<lambda>n.
        then_result (py_index row idx_apellido_rel) (\<lambda>a.
          let nombre_sheet = strip n; apellido_sheet = strip a
          in if lower nombre_sheet = lower nombre_buscar
                \<and> lower apellido_sheet = lower apellido_buscar
             then
               then_result (cell_or_na row idx_articulo_rel) (\<lambda>articulo.
               then_result (cell_or_na row idx_codigo_rel) (\<lambda>codigo.
               then_result (cell_or_na row idx_id_articulo_rel) (\<lambda>id_articulo.
                 if id_articulo = [] \<or> id_articulo = ''N/A''
                 then Inr (fst st, snd st @ [SkippedMissingId (i + 2)])
                 else if codigo = [] \<or> codigo = ''N/A''
                 then Inr (fst st, snd st @ [SkippedMissingCodigo (i + 2)])
                 else Inr (fst st @ [\<lparr>match_row_index = i + 2, match_articulo = articulo,
                                      match_id_articulo = id_articulo,
                                      match_codigo = codigo\<rparr>], snd st))))
             else Inr st)))"

fun scan_rows ::
  "string \<Rightarrow> string \<Rightarrow> int \<Rightarrow> string list list \<Rightarrow> credit_match list \<times> warning list
     \<Rightarrow> error + (credit_match list \<times> warning list)" where
  "scan_rows nombre_buscar apellido_buscar i [] st = Inr st"
| "scan_rows nombre_buscar apellido_buscar i (row # rest) st =
     (case scan_row nombre_buscar apellido_buscar i row st of
        Inl e \<Rightarrow> Inl e
      | Inr st' \<Rightarrow> scan_rows nombre_buscar apellido_buscar (i + 1) rest st')"

definition find_client_credits ::
  "sheet option \<Rightarrow> string \<Rightarrow> string \<Rightarrow> error + (credit_match list \<times> warning list)" where
  "find_client_credits sheet nombre_buscar apellido_buscar =
     (case sheet of
        None \<Rightarrow> Inl ConnectionError
      | Some sh \<Rightarrow>
          let range_to_read = COL_MASTER_NOMBRE @ ''2:'' @ COL_MASTER_ID_ARTICULO @ ''500'';
              all_data = get_values sh range_to_read
          in scan_rows nombre_buscar apellido_buscar 0 all_data ([], []))"

subsection \<open>get_credit_data\<close>

record credit =
  row_index :: int
  nombre :: string
  apellido :: string
  articulo :: string
  codigo :: string
  id_articulo :: string
  local_comercial :: string
  direccion :: string
  total_credito :: rat
  importe_cuota :: rat
  total_cuotas :: int
  cuotas_abonadas_antes :: int

text \<open>
  The helper \<open>_get_cell_value(col_letter, default_val, data_type)\<close>, once per
  \<open>data_type\<close>. Its \<open>except (ValueError, TypeError)\<close> turns a failed conversion into
  the default; an \<open>IndexError\<close> would pass through it. \<open>clean_int\<close> and \<open>clean_float\<close>
  are the two assignments to \<open>cleaned_val\<close>:
  \<^verbatim>\<open>
  val_str.replace('$', '').replace('.', '').split(',')[0]
  val_str.replace('$', '').replace('.', '').replace(',', '.')
  \<close>
\<close>

definition get_cell_str :: "string list \<Rightarrow> string \<Rightarrow> string \<Rightarrow> error + string" where
  "get_cell_str row col_letter default_val =
     (let cell_idx = col_to_index col_letter
      in if cell_idx < int (length row)
         then (case py_index row cell_idx of
                 Inl e \<Rightarrow> Inl e
               | Inr v \<Rightarrow>
                   let val_str = strip v
                   in if val_str = [] then Inr default_val else Inr val_str)
         else Inr default_val)"

definition clean_int :: "string \<Rightarrow> string" where
  "clean_int val_str =
     takeWhile (\<lambda>c. c \<noteq> CHR '','') (remove_char (CHR ''.'') (remove_char (CHR ''$'') val_str))"

definition get_cell_int :: "string list \<Rightarrow> string \<Rightarrow> int \<Rightarrow> error + int" where
  "get_cell_int row col_letter default_val =
     (let cell_idx = col_to_index col_letter
      in if cell_idx < int (length row)
         then (case py_index row cell_idx of
                 Inl e \<Rightarrow> Inl e
               | Inr v \<Rightarrow>
                   let val_str = strip v
                   in if val_str = [] then Inr default_val
                      else (case py_int (clean_int val_str) of
                              None \<Rightarrow> Inr default_val
                            | Some n \<Rightarrow> Inr n))
         else Inr default_val)"

definition clean_float :: "string \<Rightarrow> string" where
  "clean_float val_str =
     replace_char (CHR '','') (CHR ''.'')
       (remove_char (CHR ''.'') (remove_char (CHR ''$'') val_str))"

definition get_cell_float :: "string list \<Rightarrow> string \<Rightarrow> rat \<Rightarrow> error + rat" where
  "get_cell_float row col_letter default_val =
     (let cell_idx = col_to_index col_letter
      in if cell_idx < int (length row)
         then (case py_index row cell_idx of
                 Inl e \<Rightarrow> Inl e
               | Inr v \<Rightarrow>
                   let val_str = strip v
                   in if val_str = [] then Inr default_val
                      else (case py_float (clean_float val_str) of
                              None \<Rightarrow> Inr default_val
                            | Some x \<Rightarrow> Inr x))
         else Inr default_val)"

text \<open>The dictionary \<open>credit\<close>, built field by field in the order of the source.\<close>

definition read_credit :: "int \<Rightarrow> string list \<Rightarrow> error + credit" where
  "read_credit r row =
     then_result (get_cell_str row COL_MASTER_NOMBRE ''N/A'') (\<lambda>v_nombre.
     then_result (get_cell_str row COL_MASTER_APELLIDO ''N/A'') (\<lambda>v_apellido.
     then_result (get_cell_str row COL_MASTER_ARTICULO ''N/A'') (\<lambda>v_articulo.
     then_result (get_cell_str row COL_MASTER_CODIGO ''N/A'') (\<lambda>v_codigo.
     then_result (get_cell_str row COL_MASTER_ID_ARTICULO ''N/A'') (\<lambda>v_id.
     then_result (get_cell_str row COL_MASTER_COMERCIO ''N/A'') (\<lambda>v_comercio.
     then_result (get_cell_str row COL_MASTER_DIRECCION ''N/A'') (\<lambda>v_direccion.
     then_result (get_cell_float row COL_MASTER_TOTAL_CREDITO 0) (\<lambda>v_total.
     then_result (get_cell_float row COL_MASTER_IMPORTE_CUOTA 0) (\<lambda>v_importe.
     then_result (get_cell_int row COL_MASTER_TOTAL_CUOTAS 0) (\<lambda>v_cuotas.
     then_result (get_cell_int row COL_MASTER_CUOTAS_ABONADAS 0) (\<lambda>v_abonadas.
       Inr \<lparr>row_index = r, nombre = v_nombre, apellido = v_apellido,
            articulo = v_articulo, codigo = v_codigo, id_articulo = v_id,
            local_comercial = v_comercio, direccion = v_direccion,
            total_credito = v_total, importe_cuota = v_importe,
            total_cuotas = v_cuotas, cuotas_abonadas_antes = v_abonadas\<rparr>)))))))))))"

definition get_credit_data :: "sheet option \<Rightarrow> int \<Rightarrow> error + credit" where
  "get_credit_data sheet r =
     (case sheet of
        None \<Rightarrow> Inl ConnectionError
      | Some sh \<Rightarrow>
          let row = row_values sh r
          in if row = [] then Inl (ValueError NoDataInRow)
             else
               (case read_credit r row of
                  Inl e \<Rightarrow> Inl e
                | Inr credit \<Rightarrow>
                    if id_articulo credit = [] \<or> id_articulo credit = ''N/A''
                    then Inl (ValueError MissingIdArticulo)
                    else if codigo credit = [] \<or> codigo credit = ''N/A''
                    then Inl (ValueError MissingCodigoArticulo)
                    else if importe_cuota credit \<le> 0
                    then Inl (ValueError InvalidImporteCuota)
                    else if total_cuotas credit \<le> 0
                    then Inl (ValueError InvalidTotalCuotas)
                    else Inr credit))"

subsection \<open>find_first_empty_log_row\<close>

text \<open>
  \<^verbatim>\<open>
  for i, row_content in enumerate(log_table_preview):
      if all(not str(cell).strip() for cell in row_content):
          return i + 2
  return len(log_table_preview) + 2
  \<close>
\<close>

fun scan_log :: "int \<Rightarrow> string list list \<Rightarrow> int option" where
  "scan_log i [] = None"
| "scan_log i (row_content # rest) =
     (if list_all (\<lambda>cell. strip cell = []) row_content then Some (i + 2)
      else scan_log (i + 1) rest)"

definition find_first_empty_log_row :: "sheet option \<Rightarrow> error + int" where
  "find_first_empty_log_row sheet =
     (case sheet of
        None \<Rightarrow> Inl ConnectionError
      | Some sh \<Rightarrow>
          let range_to_check = COL_LOG_FECHA @ ''2:'' @ COL_LOG_ARTICULO @ ''1000'';
              log_table_preview = get_values sh range_to_check
          in (case scan_log 0 log_table_preview of
                Some empty_row_index \<Rightarrow> Inr empty_row_index
              | None \<Rightarrow> Inr (int (length log_table_preview) + 2)))"

section \<open>The payment workflow (main_logic.py)\<close>

text \<open>
  What the workflow does to the outside, in order: the chat messages it edits or
  sends, the receipt it renders and delivers, and the ranges it writes with
  \<open>sheet.update\<close>. A message is kept as the values it interpolates, a receipt as
  the values printed on it.
\<close>

datatype message =
    CreditFullyPaid string string string string int
  | PaymentExceedsRemaining string string string string int int
  | PaymentRegistered int string
  | DatabaseConnectionError
  | DataError value_error
  | UnexpectedCriticalError

record ticket =
  ticket_fecha_hora :: string
  ticket_nombre :: string
  ticket_apellido :: string
  ticket_local_comercial :: string
  ticket_direccion :: string
  ticket_importe_cuota :: rat
  ticket_cuotas_a_pagar :: int
  ticket_articulo :: string
  ticket_codigo :: string
  rango_cuotas_pagadas_str :: string
  saldo_pagado_total_actualizado :: rat
  ticket_total_credito :: rat
  remito_number_str :: string
  total_monto_pago_actual :: rat
  cobrador_name :: string

datatype event =
    EditMessage message
  | SendMessage message
  | GenerateTicketImage ticket
  | SendPhoto ticket
  | SheetUpdate string "string list"

text \<open>
  \<^verbatim>\<open>
  if update.callback_query: await update.callback_query.edit_message_text(msg)
  else: await context.bot.send_message(chat_id=effective_chat_id, text=msg)
  \<close>
\<close>

definition reply :: "bool \<Rightarrow> message \<Rightarrow> event" where
  "reply callback_query msg = (if callback_query then EditMessage msg else SendMessage msg)"

text \<open>The handlers at the end of \<open>generate_and_send_receipt\<close>, by exception class.\<close>

fun error_message :: "error \<Rightarrow> message" where
  "error_message ConnectionError = DatabaseConnectionError"
| "error_message (ValueError e) = DataError e"
| "error_message IndexError = UnexpectedCriticalError"
| "error_message RuntimeError = UnexpectedCriticalError"

subsection \<open>log_payment_and_update_credit (sheet.py)\<close>

text \<open>
  \<open>credit_data\<close> is always a non-empty dictionary here, so the first guard never
  fires. The guards stand before the \<open>try\<close>; inside it, any exception of
  \<open>find_first_empty_log_row\<close> is raised again as \<open>RuntimeError\<close>. The result is the
  list of \<open>sheet.update\<close> calls made: one, of the range
  \<^verbatim>\<open>f"{COL_LOG_FECHA}{log_row_to_write}:{COL_LOG_CANT_CUOTAS_PAGADAS}{log_row_to_write}"\<close>
  with the nine cells of \<open>log_entry_data\<close>.
\<close>

definition log_entry_data :: "string \<Rightarrow> credit \<Rightarrow> int \<Rightarrow> string list" where
  "log_entry_data fecha_log credit_data cantidad_cuotas_pagadas =
     [fecha_log,
      nombre credit_data,
      apellido credit_data,
      articulo credit_data,
      id_articulo credit_data,
      local_comercial credit_data,
      direccion credit_data,
      replace_char (CHR ''.'') (CHR '','') (fmt_2f (importe_cuota credit_data)),
      py_str cantidad_cuotas_pagadas]"

definition log_range_to_update :: "int \<Rightarrow> string" where
  "log_range_to_update log_row_to_write =
     COL_LOG_FECHA @ py_str log_row_to_write @ '':''
       @ COL_LOG_CANT_CUOTAS_PAGADAS @ py_str log_row_to_write"

definition log_payment_and_update_credit ::
  "sheet option \<Rightarrow> string \<Rightarrow> credit \<Rightarrow> int \<Rightarrow> error + event list" where
  "log_payment_and_update_credit sheet fecha_log credit_data cantidad_cuotas_pagadas =
     (case sheet of
        None \<Rightarrow> Inl ConnectionError
      | Some sh \<Rightarrow>
          if cantidad_cuotas_pagadas \<le> 0
          then Inl (ValueError InvalidCantidadCuotasPagadas)
          else
            (case find_first_empty_log_row sheet of
               Inl e \<Rightarrow> Inl RuntimeError
             | Inr log_row_to_write \<Rightarrow>
                 Inr [SheetUpdate (log_range_to_update log_row_to_write)
                        (log_entry_data fecha_log credit_data cantidad_cuotas_pagadas)]))"

subsection \<open>generate_and_send_receipt\<close>

text \<open>
  \<^verbatim>\<open>
  if log_sheet_next_row and credit.get('id_articulo') and credit['id_articulo'] != "N/A":
      try:
          remito_number_str = f"{int(credit['id_articulo']):03d}/{log_sheet_next_row:04d}"
      except (ValueError, TypeError) as e_remito_format:
          remito_number_str = "Error/Format"
  \<close>
  with \<open>remito_number_str = "N/A"\<close> before it.
\<close>

definition remito_number :: "int option \<Rightarrow> credit \<Rightarrow> string" where
  "remito_number log_sheet_next_row credit =
     (case log_sheet_next_row of
        None \<Rightarrow> ''N/A''
      | Some next_row \<Rightarrow>
          if next_row \<noteq> 0 \<and> id_articulo credit \<noteq> [] \<and> id_articulo credit \<noteq> ''N/A''
          then (case py_int (id_articulo credit) of
                  None \<Rightarrow> ''Error/Format''
                | Some n \<Rightarrow> fmt_d 3 n @ ''/'' @ fmt_d 4 next_row)
          else ''N/A'')"

definition rango_cuotas_pagadas :: "credit \<Rightarrow> int \<Rightarrow> string" where
  "rango_cuotas_pagadas credit cuotas_a_pagar =
     (let current_installment_start_num = cuotas_abonadas_antes credit + 1;
          current_installment_end_num = cuotas_abonadas_antes credit + cuotas_a_pagar
      in if cuotas_a_pagar = 1
         then py_str current_installment_start_num @ '' of '' @ py_str (total_cuotas credit)
         else py_str current_installment_start_num @ '' to ''
              @ py_str current_installment_end_num @ '' of '' @ py_str (total_cuotas credit))"

definition make_ticket :: "string \<Rightarrow> string \<Rightarrow> credit \<Rightarrow> int \<Rightarrow> ticket" where
  "make_ticket fecha_hora remito credit cuotas_a_pagar =
     \<lparr>ticket_fecha_hora = fecha_hora,
      ticket_nombre = nombre credit,
      ticket_apellido = apellido credit,
      ticket_local_comercial = local_comercial credit,
      ticket_direccion = direccion credit,
      ticket_importe_cuota = importe_cuota credit,
      ticket_cuotas_a_pagar = cuotas_a_pagar,
      ticket_articulo = articulo credit,
      ticket_codigo = codigo credit,
      rango_cuotas_pagadas_str = rango_cuotas_pagadas credit cuotas_a_pagar,
      saldo_pagado_total_actualizado =
        importe_cuota credit * of_int (cuotas_abonadas_antes credit + cuotas_a_pagar),
      ticket_total_credito = total_credito credit,
      remito_number_str = remito,
      total_monto_pago_actual = importe_cuota credit * of_int cuotas_a_pagar,
      cobrador_name = ''John''\<rparr>"

text \<open>
  The steps after the credit has been loaded: the feasibility checks, the receipt,
  the log write and the confirmation.
\<close>

definition register_payment ::
  "sheet option \<Rightarrow> bool \<Rightarrow> string \<Rightarrow> string \<Rightarrow> int option \<Rightarrow> credit \<Rightarrow> int \<Rightarrow> event list" where
  "register_payment sheet callback_query fecha_hora fecha_log log_sheet_next_row credit
       cuotas_a_pagar =
     (let remito = remito_number log_sheet_next_row credit;
          total_cuotas_sheet = total_cuotas credit;
          cuotas_abonadas_antes_sheet = cuotas_abonadas_antes credit
      in if total_cuotas_sheet \<le> cuotas_abonadas_antes_sheet
         then [reply callback_query
                 (CreditFullyPaid (articulo credit) (codigo credit) (nombre credit)
                    (apellido credit) total_cuotas_sheet)]
         else
           (let cuotas_restantes = total_cuotas_sheet - cuotas_abonadas_antes_sheet
            in if cuotas_restantes < cuotas_a_pagar
               then [reply callback_query
                       (PaymentExceedsRemaining (articulo credit) (codigo credit)
                          (nombre credit) (apellido credit) cuotas_a_pagar cuotas_restantes)]
               else
                 (let t = make_ticket fecha_hora remito credit cuotas_a_pagar
                  in [GenerateTicketImage t, SendPhoto t]
                     @ (case log_payment_and_update_credit sheet fecha_log credit
                               cuotas_a_pagar of
                          Inl e \<Rightarrow> [reply callback_query (error_message e)]
                        | Inr writes \<Rightarrow>
                            writes
                            @ [reply callback_query
                                 (PaymentRegistered cuotas_a_pagar (articulo credit))]))))"

text \<open>
  \<open>generate_and_send_receipt(update, context, master_sheet_row_index, cuotas_a_pagar)\<close>:
  \<open>callback_query\<close> says whether the update came from a button, and \<open>fecha_hora\<close> and
  \<open>fecha_log\<close> are the two readings of \<open>datetime.now()\<close>, formatted. A failure of the
  first \<open>find_first_empty_log_row\<close> is logged and leaves \<open>log_sheet_next_row = None\<close>.
\<close>

definition generate_and_send_receipt ::
  "sheet option \<Rightarrow> bool \<Rightarrow> string \<Rightarrow> string \<Rightarrow> int \<Rightarrow> int \<Rightarrow> event list" where
  "generate_and_send_receipt sheet callback_query fecha_hora fecha_log
       master_sheet_row_index cuotas_a_pagar =
     (let log_sheet_next_row =
            (case find_first_empty_log_row sheet of Inl e \<Rightarrow> None | Inr r \<Rightarrow> Some r)
      in case get_credit_data sheet master_sheet_row_index of
           Inl e \<Rightarrow> [reply callback_query (error_message e)]
         | Inr credit \<Rightarrow>
             register_payment sheet callback_query fecha_hora fecha_log log_sheet_next_row
               credit cuotas_a_pagar)"

text \<open>The \<open>sheet.update\<close> calls and the renderer calls among the events of a run.\<close>

fun is_write :: "event \<Rightarrow> bool" where
  "is_write (SheetUpdate rng cells) = True"
| "is_write ev = False"

fun is_render :: "event \<Rightarrow> bool" where
  "is_render (GenerateTicketImage t) = True"
| "is_render ev = False"

section \<open>Reference descriptions and example ledgers\<close>

text \<open>
  What \<open>find_client_credits\<close> returns, said row by row: whether the row at position
  \<open>i\<close> of the fetched range is returned, and the match it is returned as.
\<close>

definition row_is_returned :: "string \<Rightarrow> string \<Rightarrow> string list \<Rightarrow> bool" where
  "row_is_returned nombre_buscar apellido_buscar row =
     (5 < length row
      \<and> lower (strip (row ! 0)) = lower nombre_buscar
      \<and> lower (strip (row ! 1)) = lower apellido_buscar
      \<and> strip (row ! 5) \<noteq> [] \<and> strip (row ! 5) \<noteq> ''N/A''
      \<and> strip (row ! 4) \<noteq> [] \<and> strip (row ! 4) \<noteq> ''N/A'')"

definition match_of_row :: "nat \<Rightarrow> string list \<Rightarrow> credit_match" where
  "match_of_row i row =
     \<lparr>match_row_index = int i + 2, match_articulo = strip (row ! 3),
      match_id_articulo = strip (row ! 5), match_codigo = strip (row ! 4)\<rparr>"

definition returned_matches :: "string \<Rightarrow> string \<Rightarrow> string list list \<Rightarrow> credit_match list" where
  "returned_matches nombre_buscar apellido_buscar all_data =
     map (\<lambda>(i, row). match_of_row i row)
       (filter (\<lambda>(i, row). row_is_returned nombre_buscar apellido_buscar row)
          (enumerate 0 all_data))"

definition row_warnings :: "string \<Rightarrow> string \<Rightarrow> nat \<Rightarrow> string list \<Rightarrow> warning list" where
  "row_warnings nombre_buscar apellido_buscar i row =
     (if 5 < length row
         \<and> lower (strip (row ! 0)) = lower nombre_buscar
         \<and> lower (strip (row ! 1)) = lower apellido_buscar
      then (if strip (row ! 5) = [] \<or> strip (row ! 5) = ''N/A''
            then [SkippedMissingId (int i + 2)]
            else if strip (row ! 4) = [] \<or> strip (row ! 4) = ''N/A''
            then [SkippedMissingCodigo (int i + 2)]
            else [])
      else [])"

definition logged_warnings :: "string \<Rightarrow> string \<Rightarrow> string list list \<Rightarrow> warning list" where
  "logged_warnings nombre_buscar apellido_buscar all_data =
     concat (map (\<lambda>(i, row). row_warnings nombre_buscar apellido_buscar i row)
               (enumerate 0 all_data))"

text \<open>
  The same, as the specification words it: the trimmed stored names equal the
  trimmed query names up to letter case, and the item code and item identifier
  cells are non-empty. A cell the row does not reach is empty.
\<close>

definition cell_at :: "string list \<Rightarrow> nat \<Rightarrow> string" where
  "cell_at row k = (if k < length row then row ! k else [])"

definition claimed_row_is_returned :: "string \<Rightarrow> string \<Rightarrow> string list \<Rightarrow> bool" where
  "claimed_row_is_returned nombre_buscar apellido_buscar row =
     (lower (strip (cell_at row 0)) = lower (strip nombre_buscar)
      \<and> lower (strip (cell_at row 1)) = lower (strip apellido_buscar)
      \<and> cell_at row 4 \<noteq> [] \<and> cell_at row 5 \<noteq> [])"

definition claimed_matches :: "string \<Rightarrow> string \<Rightarrow> string list list \<Rightarrow> credit_match list" where
  "claimed_matches nombre_buscar apellido_buscar all_data =
     map (\<lambda>(i, row).
            \<lparr>match_row_index = int i + 2, match_articulo = cell_at row 3,
             match_id_articulo = cell_at row 5, match_codigo = cell_at row 4\<rparr>)
       (filter (\<lambda>(i, row). claimed_row_is_returned nombre_buscar apellido_buscar row)
          (enumerate 0 all_data))"

text \<open>
  The trimmed cell of a full sheet row under a column letter; empty when the row
  does not reach the column.
\<close>

definition master_cell :: "string list \<Rightarrow> string \<Rightarrow> string" where
  "master_cell row col_letter =
     (if col_to_index col_letter < int (length row)
      then strip (row ! nat (col_to_index col_letter)) else [])"

text \<open>A text field of the loaded record: the trimmed cell, or \<open>N/A\<close> when it is empty.\<close>

definition text_field :: "string list \<Rightarrow> string \<Rightarrow> string" where
  "text_field row col_letter =
     (if master_cell row col_letter = [] then ''N/A'' else master_cell row col_letter)"

text \<open>
  A small ledger. The master table holds a credit of 12 installments with 3 paid
  (sheet row 2), one with all 12 paid (row 3), a row whose item code is the sentinel
  (row 4), a row that stops after the names (row 5) and a credit whose item
  identifier is not a number (row 6); the log table has one entry.
\<close>

definition example_master :: "string list list" where
  "example_master =
     [[''Ana'', ''Diaz'', '''', ''TV'', ''C1'', ''7''],
      [''Ana'', ''Diaz'', '''', ''Sofa'', ''C3'', ''9''],
      [''ana '', '' DIAZ'', '''', ''Radio'', ''N/A'', ''8''],
      [''Ana'', ''Diaz''],
      [''Luis'', ''Paz'', '''', ''Bike'', ''C9'', ''X-7'']]"

definition example_row :: "string list" where
  "example_row =
     replicate 12 '''' @
     [''Ana'', ''Diaz'', '''', ''TV'', ''C1'', ''7'', ''Shop'', ''Main St 1'',
      ''$ 18.000,00'', ''1.500,00'', ''12'', ''3'']"

definition paid_up_row :: "string list" where
  "paid_up_row =
     replicate 12 '''' @
     [''Ana'', ''Diaz'', '''', ''Sofa'', ''C3'', ''9'', ''Shop'', ''Main St 1'',
      ''6.000,00'', ''500,00'', ''12'', ''12'']"

definition lettered_id_row :: "string list" where
  "lettered_id_row =
     replicate 12 '''' @
     [''Luis'', ''Paz'', '''', ''Bike'', ''C9'', ''X-7'', ''Shop'', ''Main St 1'',
      ''900,00'', ''300,00'', ''3'', ''0'']"

definition example_log :: "string list list" where
  "example_log = [[''01/01/2026'', ''Ana'', ''Diaz'', ''TV'']]"

definition example_sheet :: sheet where
  "example_sheet =
     \<lparr>get_values = (\<lambda>rng. if rng = ''M2:R500'' then example_master
                           else if rng = ''A2:D1000'' then example_log else []),
      row_values = (\<lambda>r. if r = 2 then example_row
                           else if r = 3 then paid_up_row
                           else if r = 6 then lettered_id_row else [])\<rparr>"

definition example_credit :: credit where
  "example_credit =
     \<lparr>row_index = 2, nombre = ''Ana'', apellido = ''Diaz'', articulo = ''TV'',
      codigo = ''C1'', id_articulo = ''7'', local_comercial = ''Shop'',
      direccion = ''Main St 1'', total_credito = 18000, importe_cuota = 1500,
      total_cuotas = 12, cuotas_abonadas_antes = 3\<rparr>"

definition lettered_id_credit :: credit where
  "lettered_id_credit =
     \<lparr>row_index = 6, nombre = ''Luis'', apellido = ''Paz'', articulo = ''Bike'',
      codigo = ''C9'', id_articulo = ''X-7'', local_comercial = ''Shop'',
      direccion = ''Main St 1'', total_credito = 900, importe_cuota = 300,
      total_cuotas = 3, cuotas_abonadas_antes = 0\<rparr>"

definition paid_up_credit :: credit where
  "paid_up_credit =
     \<lparr>row_index = 3, nombre = ''Ana'', apellido = ''Diaz'', articulo = ''Sofa'',
      codigo = ''C3'', id_articulo = ''9'', local_comercial = ''Shop'',
      direccion = ''Main St 1'', total_credito = 6000, importe_cuota = 500,
      total_cuotas = 12, cuotas_abonadas_antes = 12\<rparr>"

text \<open>
  A master table whose first row carries the sentinel \<open>N/A\<close> as its item code.
\<close>

definition sentinel_sheet :: sheet where
  "sentinel_sheet =
     \<lparr>get_values = (\<lambda>rng. if rng = ''M2:R500''
                           then [[''John'', ''Doe'', '''', ''TV'', ''N/A'', ''7''],
                                 [''John'', ''Doe'', '''', ''Radio'', ''C2'', ''8'']]
                           else []),
      row_values = (\<lambda>r. [])\<rparr>"

text \<open>
  Two sheet rows whose installments-paid count equals their total: row 2 counts 0 of
  0, and row 3 counts 12 of 12 but has no item code.
\<close>

definition zero_total_row :: "string list" where
  "zero_total_row =
     replicate 12 '''' @
     [''Ana'', ''Diaz'', '''', ''TV'', ''C1'', ''7'', ''Shop'', ''Main St 1'',
      ''18.000,00'', ''1.500,00'', ''0'', ''0'']"

definition no_code_row :: "string list" where
  "no_code_row =
     replicate 12 '''' @
     [''Ana'', ''Diaz'', '''', ''TV'', '''', ''7'', ''Shop'', ''Main St 1'',
      ''18.000,00'', ''1.500,00'', ''12'', ''12'']"

definition rejected_sheet :: sheet where
  "rejected_sheet =
     \<lparr>get_values = (\<lambda>rng. []),
      row_values = (\<lambda>r. if r = 2 then zero_total_row
                           else if r = 3 then no_code_row else [])\<rparr>"

section \<open>Properties of the column letters\<close>

lemma col_loop_linear: "col_loop cs index pw = index + pw * col_loop cs 0 1"
proof (induction cs arbitrary: index pw)
  case Nil
  then show ?case by simp
next
  case (Cons c cs)
  define d where "d = py_ord c - py_ord (CHR ''A'') + 1"
  have a: "col_loop cs (index + d * pw) (pw * 26) = index + d * pw + pw * 26 * col_loop cs 0 1"
    by (rule Cons.IH)
  have b: "col_loop cs d 26 = d + 26 * col_loop cs 0 1"
    by (rule Cons.IH)
  have "col_loop (c # cs) index pw = col_loop cs (index + d * pw) (pw * 26)"
    by (simp add: d_def)
  moreover have "col_loop (c # cs) 0 1 = col_loop cs d 26"
    by (simp add: d_def)
  ultimately show ?case
    by (simp only: a b) (simp add: algebra_simps)
qed

lemma col_to_index_Nil: "col_to_index [] = - 1"
  by (simp add: col_to_index_def upper_def)

lemma col_to_index_snoc:
  "col_to_index (s @ [c]) = 26 * (col_to_index s + 1) + (py_ord (upper_char c) - 64) - 1"
proof -
  have "col_to_index (s @ [c]) = col_loop (rev (upper s)) (py_ord (upper_char c) - 64) 26 - 1"
    by (simp add: col_to_index_def upper_def py_ord_def)
  also have "\<dots> = (py_ord (upper_char c) - 64) + 26 * col_loop (rev (upper s)) 0 1 - 1"
    by (subst col_loop_linear) simp
  finally show ?thesis by (simp add: col_to_index_def)
qed

lemma col_to_index_single: "col_to_index [c] = py_ord (upper_char c) - 65"
  using col_to_index_snoc [of "[]" c] by (simp add: col_to_index_Nil)

lemma upper_char_id: "is_upper_letter c \<Longrightarrow> upper_char c = c"
  by (simp add: is_upper_letter_def upper_char_def)

lemma col_to_index_nonneg:
  "s \<noteq> [] \<Longrightarrow> list_all is_upper_letter s \<Longrightarrow> 0 \<le> col_to_index s"
proof (induction s rule: rev_induct)
  case Nil
  then show ?case by simp
next
  case (snoc c s)
  have "is_upper_letter c" using snoc.prems by simp
  then have c: "65 \<le> py_ord (upper_char c)"
    by (simp add: upper_char_id) (simp add: is_upper_letter_def)
  show ?case
  proof (cases "s = []")
    case True
    then show ?thesis using c by (simp add: col_to_index_single)
  next
    case False
    then have "0 \<le> col_to_index s" using snoc by simp
    then show ?thesis using c by (simp add: col_to_index_snoc)
  qed
qed

lemma index_to_col_col_to_index:
  "s \<noteq> [] \<Longrightarrow> list_all is_upper_letter s \<Longrightarrow> index_to_col (col_to_index s) = s"
proof (induction s rule: rev_induct)
  case Nil
  then show ?case by simp
next
  case (snoc c s)
  have isu: "is_upper_letter c" using snoc.prems by simp
  have up: "upper_char c = c" using isu by (simp add: upper_char_id)
  have lo: "65 \<le> py_ord c" and hi: "py_ord c \<le> 90"
    using isu by (simp_all add: is_upper_letter_def)
  have chr: "char_of (py_ord c - 65 + 65) = c"
    by (simp add: py_ord_def)
  show ?case
  proof (cases "s = []")
    case True
    have "col_to_index (s @ [c]) = py_ord c - 65"
      using True by (simp add: col_to_index_single up)
    moreover have "index_to_col (py_ord c - 65) = [c]"
      using lo hi chr by (subst index_to_col.simps) simp
    ultimately show ?thesis using True by simp
  next
    case False
    then have ih: "index_to_col (col_to_index s) = s" using snoc by simp
    have nn: "0 \<le> col_to_index s" using False snoc.prems by (simp add: col_to_index_nonneg)
    define n where "n = col_to_index (s @ [c])"
    have n: "n = 26 * (col_to_index s + 1) + (py_ord c - 65)"
      by (simp add: n_def col_to_index_snoc up)
    define r where "r = py_ord c - 65"
    have r: "0 \<le> r" "r < 26" using lo hi by (simp_all add: r_def)
    have n': "n = r + 26 * (col_to_index s + 1)"
      by (simp add: n r_def)
    have d: "n div 26 - 1 = col_to_index s"
      using r unfolding n' by simp
    have "n mod 26 = r"
      using r unfolding n' by presburger
    then have m: "n mod 26 = py_ord c - 65"
      by (simp only: r_def)
    have big: "\<not> n < 0" "\<not> n < 26" using nn lo unfolding n by simp_all
    have "index_to_col n = index_to_col (n div 26 - 1) @ [char_of (n mod 26 + 65)]"
      using big by (subst index_to_col.simps) simp
    then show ?thesis using d m ih chr by (simp add: n_def)
  qed
qed

lemma col_to_index_weighted:
  "col_to_index s = (\<Sum>i<length s. (py_ord (upper s ! i) - 64) * 26 ^ (length s - 1 - i)) - 1"
proof (induction s rule: rev_induct)
  case Nil
  then show ?case by (simp add: col_to_index_Nil)
next
  case (snoc c s)
  have "(\<Sum>i<length (s @ [c]). (py_ord (upper (s @ [c]) ! i) - 64) * 26 ^ (length (s @ [c]) - 1 - i))
      = (\<Sum>i<length s. (py_ord (upper s ! i) - 64) * 26 ^ (length s - i)) + (py_ord (upper_char c) - 64)"
    by (simp add: upper_def nth_append)
  also have "(\<Sum>i<length s. (py_ord (upper s ! i) - 64) * 26 ^ (length s - i))
      = (\<Sum>i<length s. 26 * ((py_ord (upper s ! i) - 64) * 26 ^ (length s - 1 - i)))"
    by (rule sum.cong) (auto simp: power_Suc [symmetric] Suc_diff_Suc simp del: power_Suc)
  also have "\<dots> = 26 * (col_to_index s + 1)"
    using snoc.IH by (simp add: sum_distrib_left)
  finally show ?case by (simp add: col_to_index_snoc)
qed

text \<open>
  Claim C8. For every column letter made of the capital letters \<open>A\<close> to \<open>Z\<close> (so for
  each of \<open>A\<close> to \<open>ZZ\<close>), \<open>col_to_index\<close> is the base-26 value of the letter with
  \<open>A\<close> = 1 to \<open>Z\<close> = 26, the last character weighing least, shifted to a zero-based
  index: \<open>A\<close> gives 0, \<open>Z\<close> 25, \<open>AA\<close> 26 and \<open>ZZ\<close> 701. Encoding the index again in
  base 26 gives the letter back, so two such letters with the same index are the
  same letter.
\<close>

theorem col_to_index_round_trip:
  "col_to_index ''A'' = 0 \<and> col_to_index ''Z'' = 25 \<and>
   col_to_index ''AA'' = 26 \<and> col_to_index ''ZZ'' = 701 \<and>
   (col_letter \<noteq> [] \<and> list_all is_upper_letter col_letter \<longrightarrow>
      col_to_index col_letter =
        (\<Sum>i<length col_letter.
           (py_ord (col_letter ! i) - 64) * 26 ^ (length col_letter - 1 - i)) - 1 \<and>
      index_to_col (col_to_index col_letter) = col_letter) \<and>
   (col_letter \<noteq> [] \<and> list_all is_upper_letter col_letter
      \<and> other \<noteq> [] \<and> list_all is_upper_letter other
      \<and> col_to_index col_letter = col_to_index other \<longrightarrow> col_letter = other)"
proof -
  have vals: "col_to_index ''A'' = 0" "col_to_index ''Z'' = 25"
    "col_to_index ''AA'' = 26" "col_to_index ''ZZ'' = 701"
    by (simp_all add: col_to_index_def upper_def upper_char_def py_ord_def)
  have "col_to_index col_letter =
      (\<Sum>i<length col_letter.
         (py_ord (col_letter ! i) - 64) * 26 ^ (length col_letter - 1 - i)) - 1"
    if "list_all is_upper_letter col_letter"
  proof -
    have "upper col_letter = col_letter"
      using that by (simp add: upper_def list_all_iff map_idI upper_char_id)
    then show ?thesis using col_to_index_weighted [of col_letter] by simp
  qed
  moreover have "col_letter = other"
    if "col_letter \<noteq> []" "list_all is_upper_letter col_letter"
      "other \<noteq> []" "list_all is_upper_letter other"
      "col_to_index col_letter = col_to_index other"
  proof -
    have "index_to_col (col_to_index col_letter) = col_letter"
      using that(1,2) by (rule index_to_col_col_to_index)
    moreover have "index_to_col (col_to_index other) = other"
      using that(3,4) by (rule index_to_col_col_to_index)
    ultimately show ?thesis using that(5) by metis
  qed
  ultimately show ?thesis
    using vals index_to_col_col_to_index [of col_letter] by blast
qed

theorem col_to_index_round_trip_witness:
  "col_to_index ''AZ'' = 51 \<and> index_to_col (col_to_index ''AZ'') = ''AZ''"
proof -
  have "''AZ'' \<noteq> [] \<and> list_all is_upper_letter ''AZ''"
    by (simp add: is_upper_letter_def py_ord_def)
  then have "index_to_col (col_to_index ''AZ'') = ''AZ''"
    using col_to_index_round_trip [of "''AZ''" "''AZ''"] by blast
  moreover have "col_to_index ''AZ'' = 51"
    by (simp add: col_to_index_def upper_def upper_char_def py_ord_def)
  ultimately show ?thesis by simp
qed

text \<open>
  Claim C9, as stated, fails: \<open>col_to_index\<close> raises nothing. The empty string gives
  the index -1, the string \<open>1\<close> gives -16, and \<open>A1\<close> gives 10, the index of column
  \<open>K\<close>.
\<close>

theorem col_to_index_no_validation_counterexample:
  "col_to_index '''' = - 1 \<and> col_to_index ''1'' = - 16 \<and>
   col_to_index ''A1'' = 10 \<and> col_to_index ''K'' = 10"
  by (simp add: col_to_index_def upper_def upper_char_def py_ord_def)

text \<open>
  Claim C9, amended. \<open>col_to_index\<close> validates nothing and returns an integer for
  every string: the character at position \<open>i\<close>, a letter or not, adds its upper-cased
  code point less 64, times 26 to the power of its distance from the end, and 1 is
  taken off the sum. For the empty string that is -1.
\<close>

theorem col_to_index_any_string:
  "col_to_index '''' = - 1 \<and>
   col_to_index col_letter =
     (\<Sum>i<length col_letter.
        (py_ord (upper col_letter ! i) - 64) * 26 ^ (length col_letter - 1 - i)) - 1"
  using col_to_index_weighted [of col_letter] by (simp add: col_to_index_Nil)

section \<open>Properties of the credit lookup\<close>

lemma master_col_indices:
  "col_to_index COL_MASTER_NOMBRE = 12" "col_to_index COL_MASTER_APELLIDO = 13"
  "col_to_index COL_MASTER_ARTICULO = 15" "col_to_index COL_MASTER_CODIGO = 16"
  "col_to_index COL_MASTER_ID_ARTICULO = 17" "col_to_index COL_MASTER_COMERCIO = 18"
  "col_to_index COL_MASTER_DIRECCION = 19" "col_to_index COL_MASTER_TOTAL_CREDITO = 20"
  "col_to_index COL_MASTER_IMPORTE_CUOTA = 21" "col_to_index COL_MASTER_TOTAL_CUOTAS = 22"
  "col_to_index COL_MASTER_CUOTAS_ABONADAS = 23"
  by (simp_all add: col_to_index_def upper_def upper_char_def py_ord_def
      COL_MASTER_NOMBRE_def COL_MASTER_APELLIDO_def COL_MASTER_ARTICULO_def
      COL_MASTER_CODIGO_def COL_MASTER_ID_ARTICULO_def COL_MASTER_COMERCIO_def
      COL_MASTER_DIRECCION_def COL_MASTER_TOTAL_CREDITO_def COL_MASTER_IMPORTE_CUOTA_def
      COL_MASTER_TOTAL_CUOTAS_def COL_MASTER_CUOTAS_ABONADAS_def)

lemma log_col_indices:
  "col_to_index COL_LOG_FECHA = 0" "col_to_index COL_LOG_ARTICULO = 3"
  "col_to_index COL_LOG_CANT_CUOTAS_PAGADAS = 8"
  by (simp_all add: col_to_index_def upper_def upper_char_def py_ord_def
      COL_LOG_FECHA_def COL_LOG_ARTICULO_def COL_LOG_CANT_CUOTAS_PAGADAS_def)

lemma rel_indices:
  "idx_nombre_rel = 0" "idx_apellido_rel = 1" "idx_articulo_rel = 3"
  "idx_codigo_rel = 4" "idx_id_articulo_rel = 5"
  by (simp_all add: idx_nombre_rel_def idx_apellido_rel_def idx_articulo_rel_def
      idx_codigo_rel_def idx_id_articulo_rel_def base_col_index_def master_col_indices)

lemma py_index_in_range:
  "0 \<le> i \<Longrightarrow> i < int (length xs) \<Longrightarrow> py_index xs i = Inr (xs ! nat i)"
  by (simp add: py_index_def)

lemma cell_or_na_in_range:
  "0 \<le> i \<Longrightarrow> i < int (length row) \<Longrightarrow> cell_or_na row i = Inr (strip (row ! nat i))"
  by (simp add: cell_or_na_def py_index_in_range)

lemma scan_row_short:
  "length row \<le> 5 \<Longrightarrow> scan_row nombre_buscar apellido_buscar i row st = Inr st"
  by (simp add: scan_row_def rel_indices)

lemma scan_row_long:
  assumes "5 < length row"
  shows "scan_row nombre_buscar apellido_buscar i row st =
     Inr (if lower (strip (row ! 0)) = lower nombre_buscar
             \<and> lower (strip (row ! 1)) = lower apellido_buscar
          then (if strip (row ! 5) = [] \<or> strip (row ! 5) = ''N/A''
                then (fst st, snd st @ [SkippedMissingId (i + 2)])
                else if strip (row ! 4) = [] \<or> strip (row ! 4) = ''N/A''
                then (fst st, snd st @ [SkippedMissingCodigo (i + 2)])
                else (fst st @ [\<lparr>match_row_index = i + 2, match_articulo = strip (row ! 3),
                                   match_id_articulo = strip (row ! 5),
                                   match_codigo = strip (row ! 4)\<rparr>], snd st))
          else st)"
proof -
  have a: "py_index row 0 = Inr (row ! 0)" "py_index row 1 = Inr (row ! 1)"
    using assms by (auto simp: py_index_def)
  have b: "cell_or_na row 3 = Inr (strip (row ! 3))" "cell_or_na row 4 = Inr (strip (row ! 4))"
    "cell_or_na row 5 = Inr (strip (row ! 5))"
    using assms cell_or_na_in_range [of 3 row] cell_or_na_in_range [of 4 row]
      cell_or_na_in_range [of 5 row] by simp_all
  show ?thesis
    using assms by (auto simp add: scan_row_def rel_indices a b then_result_def Let_def)
qed

lemma scan_row_step:
  "scan_row nombre_buscar apellido_buscar (int k) row st =
     Inr (fst st @ (if row_is_returned nombre_buscar apellido_buscar row
                    then [match_of_row k row] else []),
          snd st @ row_warnings nombre_buscar apellido_buscar k row)"
proof (cases "5 < length row")
  case True
  then show ?thesis
    by (simp add: scan_row_long row_is_returned_def match_of_row_def row_warnings_def)
next
  case False
  then show ?thesis
    by (simp add: scan_row_short row_is_returned_def row_warnings_def)
qed

lemma scan_rows_from:
  "scan_rows nombre_buscar apellido_buscar (int k) rows st =
     Inr (fst st @ map (\<lambda>(i, row). match_of_row i row)
                     (filter (\<lambda>(i, row). row_is_returned nombre_buscar apellido_buscar row)
                        (enumerate k rows)),
          snd st @ concat (map (\<lambda>(i, row). row_warnings nombre_buscar apellido_buscar i row)
                             (enumerate k rows)))"
proof (induction rows arbitrary: k st)
  case Nil
  then show ?case by simp
next
  case (Cons row rows)
  have next_i: "int k + 1 = int (Suc k)" by simp
  show ?case
    by (simp only: scan_rows.simps scan_row_step sum.case next_i Cons.IH)
       simp
qed

lemma find_client_credits_result:
  "find_client_credits (Some sh) nombre_buscar apellido_buscar =
     Inr (returned_matches nombre_buscar apellido_buscar (get_values sh ''M2:R500''),
          logged_warnings nombre_buscar apellido_buscar (get_values sh ''M2:R500''))"
  using scan_rows_from [of nombre_buscar apellido_buscar 0 "get_values sh ''M2:R500''" "([], [])"]
  by (simp add: find_client_credits_def returned_matches_def logged_warnings_def
      COL_MASTER_NOMBRE_def COL_MASTER_ID_ARTICULO_def)

lemma returned_matches_rows:
  assumes "m \<in> set (returned_matches nombre_buscar apellido_buscar all_data)"
  shows "\<exists>i < length all_data. m = match_of_row i (all_data ! i)
           \<and> row_is_returned nombre_buscar apellido_buscar (all_data ! i)"
  using assms by (auto simp: returned_matches_def in_set_enumerate_eq)

lemma logged_warnings_rows:
  assumes "w \<in> set (logged_warnings nombre_buscar apellido_buscar all_data)"
  shows "\<exists>i < length all_data.
           w \<in> set (row_warnings nombre_buscar apellido_buscar i (all_data ! i))"
  using assms by (auto simp: logged_warnings_def in_set_enumerate_eq)

text \<open>
  Claim C6, as stated, fails. In the table of \<open>sentinel_sheet\<close> both rows carry the
  names John Doe and non-empty item code and identifier cells, so the claim returns
  both. The code skips the first, whose item code is the sentinel \<open>N/A\<close>; and asked
  for \<open>John \<close> with a trailing blank, which the claim trims, it returns nothing.
\<close>

theorem find_client_credits_counterexample:
  "find_client_credits (Some sentinel_sheet) ''John'' ''Doe'' =
     Inr ([\<lparr>match_row_index = 3, match_articulo = ''Radio'', match_id_articulo = ''8'',
             match_codigo = ''C2''\<rparr>], [SkippedMissingCodigo 2]) \<and>
   claimed_matches ''John'' ''Doe'' (get_values sentinel_sheet ''M2:R500'') =
     [\<lparr>match_row_index = 2, match_articulo = ''TV'', match_id_articulo = ''7'',
        match_codigo = ''N/A''\<rparr>,
      \<lparr>match_row_index = 3, match_articulo = ''Radio'', match_id_articulo = ''8'',
        match_codigo = ''C2''\<rparr>] \<and>
   find_client_credits (Some sentinel_sheet) ''John '' ''Doe'' = Inr ([], []) \<and>
   claimed_matches ''John '' ''Doe'' (get_values sentinel_sheet ''M2:R500'') =
     [\<lparr>match_row_index = 2, match_articulo = ''TV'', match_id_articulo = ''7'',
        match_codigo = ''N/A''\<rparr>,
      \<lparr>match_row_index = 3, match_articulo = ''Radio'', match_id_articulo = ''8'',
        match_codigo = ''C2''\<rparr>]"
  by code_simp

text \<open>
  Claim C6, amended. With a connection, \<open>find_client_credits\<close> returns, in table order,
  exactly the fetched rows that reach the item-identifier column, whose trimmed first
  and last name cells equal the query names as they were passed (the query is not
  trimmed) up to letter case, and whose trimmed item identifier and item code are
  neither empty nor the sentinel \<open>N/A\<close>. Each is returned as its sheet row number
  (position in the fetched range plus 2) with the trimmed description, identifier
  and code. Every other row is skipped, and no row makes the search fail; the result
  may be empty.
\<close>

theorem find_client_credits_returns:
  "\<exists>ws. find_client_credits (Some sh) nombre_buscar apellido_buscar =
     Inr (map (\<lambda>(i, row). match_of_row i row)
            (filter (\<lambda>(i, row). row_is_returned nombre_buscar apellido_buscar row)
               (enumerate 0 (get_values sh ''M2:R500''))), ws)"
  by (simp add: find_client_credits_result returned_matches_def)

theorem find_client_credits_returns_witness:
  "\<exists>ws. find_client_credits (Some example_sheet) ''ANA'' ''diaz'' =
     Inr ([\<lparr>match_row_index = 2, match_articulo = ''TV'', match_id_articulo = ''7'',
             match_codigo = ''C1''\<rparr>,
           \<lparr>match_row_index = 3, match_articulo = ''Sofa'', match_id_articulo = ''9'',
             match_codigo = ''C3''\<rparr>], ws)"
proof -
  have "map (\<lambda>(i, row). match_of_row i row)
          (filter (\<lambda>(i, row). row_is_returned ''ANA'' ''diaz'' row)
             (enumerate 0 (get_values example_sheet ''M2:R500''))) =
        [\<lparr>match_row_index = 2, match_articulo = ''TV'', match_id_articulo = ''7'',
           match_codigo = ''C1''\<rparr>,
         \<lparr>match_row_index = 3, match_articulo = ''Sofa'', match_id_articulo = ''9'',
           match_codigo = ''C3''\<rparr>]"
    by code_simp
  then show ?thesis
    using find_client_credits_returns [of example_sheet "''ANA''" "''diaz''"] by simp
qed

text \<open>
  Claim C10. With a connection, \<open>find_client_credits\<close> returns a list of matches
  whatever the fetched table holds: no cell access raises. A fetched row of five
  cells or fewer, which does not reach the item-identifier column, leaves the scan's
  state as it was; its row number is in no returned match and in no warning.
\<close>

theorem find_client_credits_total:
  "\<exists>ms ws. find_client_credits (Some sh) nombre_buscar apellido_buscar = Inr (ms, ws) \<and>
     (\<forall>i < length (get_values sh ''M2:R500'').
        length (get_values sh ''M2:R500'' ! i) \<le> 5 \<longrightarrow>
          scan_row nombre_buscar apellido_buscar (int i) (get_values sh ''M2:R500'' ! i) (ms0, ws0)
            = Inr (ms0, ws0)
          \<and> int i + 2 \<notin> match_row_index ` set ms
          \<and> SkippedMissingId (int i + 2) \<notin> set ws
          \<and> SkippedMissingCodigo (int i + 2) \<notin> set ws)"
proof -
  define all_data where "all_data = get_values sh ''M2:R500''"
  define ms where "ms = returned_matches nombre_buscar apellido_buscar all_data"
  define ws where "ws = logged_warnings nombre_buscar apellido_buscar all_data"
  have res: "find_client_credits (Some sh) nombre_buscar apellido_buscar = Inr (ms, ws)"
    by (simp add: find_client_credits_result ms_def ws_def all_data_def)
  have "int i + 2 \<notin> match_row_index ` set ms
        \<and> SkippedMissingId (int i + 2) \<notin> set ws
        \<and> SkippedMissingCodigo (int i + 2) \<notin> set ws"
    if short: "length (all_data ! i) \<le> 5" for i
  proof (intro conjI notI)
    assume "int i + 2 \<in> match_row_index ` set ms"
    then obtain m where m: "m \<in> set ms" "match_row_index m = int i + 2" by auto
    from returned_matches_rows [OF m(1) [unfolded ms_def]]
    obtain j where "m = match_of_row j (all_data ! j)"
      "row_is_returned nombre_buscar apellido_buscar (all_data ! j)" by blast
    with m(2) have "j = i" "5 < length (all_data ! j)"
      by (simp_all add: match_of_row_def row_is_returned_def)
    with short show False by simp
  next
    assume "SkippedMissingId (int i + 2) \<in> set ws"
    from logged_warnings_rows [OF this [unfolded ws_def]]
    obtain j where "SkippedMissingId (int i + 2)
        \<in> set (row_warnings nombre_buscar apellido_buscar j (all_data ! j))" by blast
    then have "j = i" "5 < length (all_data ! j)"
      by (simp_all add: row_warnings_def split: if_splits)
    with short show False by simp
  next
    assume "SkippedMissingCodigo (int i + 2) \<in> set ws"
    from logged_warnings_rows [OF this [unfolded ws_def]]
    obtain j where "SkippedMissingCodigo (int i + 2)
        \<in> set (row_warnings nombre_buscar apellido_buscar j (all_data ! j))" by blast
    then have "j = i" "5 < length (all_data ! j)"
      by (simp_all add: row_warnings_def split: if_splits)
    with short show False by simp
  qed
  then show ?thesis
    using res by (auto simp: all_data_def scan_row_short)
qed

theorem find_client_credits_total_witness:
  "length (get_values example_sheet ''M2:R500'' ! 3) \<le> 5 \<and>
   (\<exists>ms ws. find_client_credits (Some example_sheet) ''Ana'' ''Diaz'' = Inr (ms, ws) \<and>
      5 \<notin> match_row_index ` set ms \<and>
      SkippedMissingId 5 \<notin> set ws \<and> SkippedMissingCodigo 5 \<notin> set ws)"
proof -
  have tbl: "get_values example_sheet ''M2:R500'' = example_master"
    by (simp add: example_sheet_def)
  have row: "(3::nat) < length example_master" "length (example_master ! 3) \<le> 5"
    by (simp_all add: example_master_def)
  from find_client_credits_total [of example_sheet "''Ana''" "''Diaz''" "[]" "[]"]
  obtain ms ws where
    "find_client_credits (Some example_sheet) ''Ana'' ''Diaz'' = Inr (ms, ws)"
    "\<forall>i < length example_master. length (example_master ! i) \<le> 5 \<longrightarrow>
        int i + 2 \<notin> match_row_index ` set ms
        \<and> SkippedMissingId (int i + 2) \<notin> set ws
        \<and> SkippedMissingCodigo (int i + 2) \<notin> set ws"
    unfolding tbl by blast
  with row show ?thesis
    unfolding tbl by (intro conjI exI [of _ ms] exI [of _ ws]) force+
qed

section \<open>Properties of the credit loader\<close>

lemma get_cell_str_result:
  assumes "0 \<le> col_to_index col_letter"
  shows "get_cell_str row col_letter default_val =
           Inr (if master_cell row col_letter = [] then default_val
                else master_cell row col_letter)"
  using assms by (simp add: get_cell_str_def master_cell_def py_index_def Let_def)

lemma get_cell_int_result:
  assumes "0 \<le> col_to_index col_letter"
  shows "get_cell_int row col_letter default_val =
           Inr (if master_cell row col_letter = [] then default_val
                else (case py_int (clean_int (master_cell row col_letter)) of
                        None \<Rightarrow> default_val | Some n \<Rightarrow> n))"
  using assms
  by (simp add: get_cell_int_def master_cell_def py_index_def Let_def split: option.split)

lemma get_cell_float_result:
  assumes "0 \<le> col_to_index col_letter"
  shows "get_cell_float row col_letter default_val =
           Inr (if master_cell row col_letter = [] then default_val
                else (case py_float (clean_float (master_cell row col_letter)) of
                        None \<Rightarrow> default_val | Some x \<Rightarrow> x))"
  using assms
  by (simp add: get_cell_float_def master_cell_def py_index_def Let_def split: option.split)

lemma read_credit_result:
  "read_credit r row =
     Inr \<lparr>row_index = r,
          nombre = text_field row COL_MASTER_NOMBRE,
          apellido = text_field row COL_MASTER_APELLIDO,
          articulo = text_field row COL_MASTER_ARTICULO,
          codigo = text_field row COL_MASTER_CODIGO,
          id_articulo = text_field row COL_MASTER_ID_ARTICULO,
          local_comercial = text_field row COL_MASTER_COMERCIO,
          direccion = text_field row COL_MASTER_DIRECCION,
          total_credito =
            (if master_cell row COL_MASTER_TOTAL_CREDITO = [] then 0
             else (case py_float (clean_float (master_cell row COL_MASTER_TOTAL_CREDITO)) of
                     None \<Rightarrow> 0 | Some x \<Rightarrow> x)),
          importe_cuota =
            (if master_cell row COL_MASTER_IMPORTE_CUOTA = [] then 0
             else (case py_float (clean_float (master_cell row COL_MASTER_IMPORTE_CUOTA)) of
                     None \<Rightarrow> 0 | Some x \<Rightarrow> x)),
          total_cuotas =
            (if master_cell row COL_MASTER_TOTAL_CUOTAS = [] then 0
             else (case py_int (clean_int (master_cell row COL_MASTER_TOTAL_CUOTAS)) of
                     None \<Rightarrow> 0 | Some n \<Rightarrow> n)),
          cuotas_abonadas_antes =
            (if master_cell row COL_MASTER_CUOTAS_ABONADAS = [] then 0
             else (case py_int (clean_int (master_cell row COL_MASTER_CUOTAS_ABONADAS)) of
                     None \<Rightarrow> 0 | Some n \<Rightarrow> n))\<rparr>"
  unfolding read_credit_def then_result_def text_field_def
  by (simp only: get_cell_str_result get_cell_int_result get_cell_float_result
      master_col_indices sum.case)

lemma get_credit_data_cases:
  assumes "row_values sh r \<noteq> []" and "read_credit r (row_values sh r) = Inr credit"
  shows "get_credit_data (Some sh) r =
     (if id_articulo credit = [] \<or> id_articulo credit = ''N/A''
      then Inl (ValueError MissingIdArticulo)
      else if codigo credit = [] \<or> codigo credit = ''N/A''
      then Inl (ValueError MissingCodigoArticulo)
      else if importe_cuota credit \<le> 0 then Inl (ValueError InvalidImporteCuota)
      else if total_cuotas credit \<le> 0 then Inl (ValueError InvalidTotalCuotas)
      else Inr credit)"
  using assms by (simp add: get_credit_data_def Let_def)

text \<open>
  Claim C1. For a non-empty master row, every field is parsed without an exception,
  and \<open>get_credit_data\<close> raises exactly when, in the parsed record, the item
  identifier is empty or \<open>N/A\<close>, or the item code is empty or \<open>N/A\<close>, or the
  per-installment amount is at most 0, or the total installment count is at most 0;
  what it raises is then a \<open>ValueError\<close>, and otherwise it returns the parsed record.
  A non-empty cell of the installments-paid or total-credit column that does not
  parse gives the field 0, and an empty cell of a text column gives \<open>N/A\<close>; neither
  is among the reasons to raise.
\<close>

theorem get_credit_data_raises_iff:
  assumes "row_values sh r = row" and "row \<noteq> []"
  shows "\<exists>credit. read_credit r row = Inr credit \<and>
     ((\<exists>e. get_credit_data (Some sh) r = Inl e) \<longleftrightarrow>
        (id_articulo credit = [] \<or> id_articulo credit = ''N/A''
         \<or> codigo credit = [] \<or> codigo credit = ''N/A''
         \<or> importe_cuota credit \<le> 0 \<or> total_cuotas credit \<le> 0)) \<and>
     (\<forall>e. get_credit_data (Some sh) r = Inl e \<longrightarrow> (\<exists>v. e = ValueError v)) \<and>
     ((\<forall>e. get_credit_data (Some sh) r \<noteq> Inl e) \<longrightarrow> get_credit_data (Some sh) r = Inr credit) \<and>
     (master_cell row COL_MASTER_CUOTAS_ABONADAS \<noteq> []
        \<and> py_int (clean_int (master_cell row COL_MASTER_CUOTAS_ABONADAS)) = None
        \<longrightarrow> cuotas_abonadas_antes credit = 0) \<and>
     (master_cell row COL_MASTER_TOTAL_CREDITO \<noteq> []
        \<and> py_float (clean_float (master_cell row COL_MASTER_TOTAL_CREDITO)) = None
        \<longrightarrow> total_credito credit = 0) \<and>
     (master_cell row COL_MASTER_NOMBRE = [] \<longrightarrow> nombre credit = ''N/A'') \<and>
     (master_cell row COL_MASTER_APELLIDO = [] \<longrightarrow> apellido credit = ''N/A'') \<and>
     (master_cell row COL_MASTER_ARTICULO = [] \<longrightarrow> articulo credit = ''N/A'') \<and>
     (master_cell row COL_MASTER_COMERCIO = [] \<longrightarrow> local_comercial credit = ''N/A'') \<and>
     (master_cell row COL_MASTER_DIRECCION = [] \<longrightarrow> direccion credit = ''N/A'')"
proof -
  obtain credit where rc: "read_credit r row = Inr credit"
    by (simp add: read_credit_result)
  have fields:
    "nombre credit = text_field row COL_MASTER_NOMBRE"
    "apellido credit = text_field row COL_MASTER_APELLIDO"
    "articulo credit = text_field row COL_MASTER_ARTICULO"
    "local_comercial credit = text_field row COL_MASTER_COMERCIO"
    "direccion credit = text_field row COL_MASTER_DIRECCION"
    "total_credito credit =
       (if master_cell row COL_MASTER_TOTAL_CREDITO = [] then 0
        else (case py_float (clean_float (master_cell row COL_MASTER_TOTAL_CREDITO)) of
                None \<Rightarrow> 0 | Some x \<Rightarrow> x))"
    "cuotas_abonadas_antes credit =
       (if master_cell row COL_MASTER_CUOTAS_ABONADAS = [] then 0
        else (case py_int (clean_int (master_cell row COL_MASTER_CUOTAS_ABONADAS)) of
                None \<Rightarrow> 0 | Some n \<Rightarrow> n))"
    using rc unfolding read_credit_result by auto
  have cases: "get_credit_data (Some sh) r =
     (if id_articulo credit = [] \<or> id_articulo credit = ''N/A''
      then Inl (ValueError MissingIdArticulo)
      else if codigo credit = [] \<or> codigo credit = ''N/A''
      then Inl (ValueError MissingCodigoArticulo)
      else if importe_cuota credit \<le> 0 then Inl (ValueError InvalidImporteCuota)
      else if total_cuotas credit \<le> 0 then Inl (ValueError InvalidTotalCuotas)
      else Inr credit)"
    using assms rc by (intro get_credit_data_cases) simp_all
  have raises: "(\<exists>e. get_credit_data (Some sh) r = Inl e) \<longleftrightarrow>
        (id_articulo credit = [] \<or> id_articulo credit = ''N/A''
         \<or> codigo credit = [] \<or> codigo credit = ''N/A''
         \<or> importe_cuota credit \<le> 0 \<or> total_cuotas credit \<le> 0)"
    unfolding cases by auto
  have kind: "\<forall>e. get_credit_data (Some sh) r = Inl e \<longrightarrow> (\<exists>v. e = ValueError v)"
    unfolding cases by auto
  have returns: "(\<forall>e. get_credit_data (Some sh) r \<noteq> Inl e) \<longrightarrow>
      get_credit_data (Some sh) r = Inr credit"
    unfolding cases by auto
  show ?thesis
    using rc raises kind returns by (intro exI [of _ credit]) (simp add: fields text_field_def)
qed

theorem get_credit_data_raises_iff_witness:
  "row_values example_sheet 2 = example_row \<and> example_row \<noteq> [] \<and>
   get_credit_data (Some example_sheet) 2 = Inr example_credit"
proof -
  have row: "row_values example_sheet 2 = example_row" "example_row \<noteq> []"
    by (simp_all add: example_sheet_def example_row_def)
  have parsed: "read_credit 2 example_row = Inr example_credit"
    by code_simp
  have ok: "\<not> (id_articulo example_credit = [] \<or> id_articulo example_credit = ''N/A''
         \<or> codigo example_credit = [] \<or> codigo example_credit = ''N/A''
         \<or> importe_cuota example_credit \<le> 0 \<or> total_cuotas example_credit \<le> 0)"
    by (simp add: example_credit_def)
  from get_credit_data_raises_iff [OF row]
  obtain credit where c: "read_credit 2 example_row = Inr credit"
    "(\<exists>e. get_credit_data (Some example_sheet) 2 = Inl e) \<longleftrightarrow>
        (id_articulo credit = [] \<or> id_articulo credit = ''N/A''
         \<or> codigo credit = [] \<or> codigo credit = ''N/A''
         \<or> importe_cuota credit \<le> 0 \<or> total_cuotas credit \<le> 0)"
    "(\<forall>e. get_credit_data (Some example_sheet) 2 \<noteq> Inl e) \<longrightarrow>
        get_credit_data (Some example_sheet) 2 = Inr credit"
    by blast
  from c(1) parsed have "credit = example_credit" by simp
  with c(2,3) ok have "get_credit_data (Some example_sheet) 2 = Inr example_credit"
    by blast
  with row show ?thesis by simp
qed

section \<open>Properties of the payment workflow\<close>

lemma scan_log_Some:
  "scan_log i rows = Some next_row \<longleftrightarrow>
     (\<exists>k < length rows. list_all (\<lambda>cell. strip cell = []) (rows ! k)
        \<and> (\<forall>j < k. \<not> list_all (\<lambda>cell. strip cell = []) (rows ! j))
        \<and> next_row = i + int k + 2)"
proof (induction rows arbitrary: i)
  case Nil
  then show ?case by simp
next
  case (Cons row rows)
  show ?case
  proof (cases "list_all (\<lambda>cell. strip cell = []) row")
    case True
    have "(\<exists>k < length (row # rows). list_all (\<lambda>cell. strip cell = []) ((row # rows) ! k)
        \<and> (\<forall>j < k. \<not> list_all (\<lambda>cell. strip cell = []) ((row # rows) ! j))
        \<and> next_row = i + int k + 2) \<longleftrightarrow> next_row = i + 2"
    proof
      assume "\<exists>k < length (row # rows). list_all (\<lambda>cell. strip cell = []) ((row # rows) ! k)
        \<and> (\<forall>j < k. \<not> list_all (\<lambda>cell. strip cell = []) ((row # rows) ! j))
        \<and> next_row = i + int k + 2"
      then obtain k where k: "\<forall>j < k. \<not> list_all (\<lambda>cell. strip cell = []) ((row # rows) ! j)"
        "next_row = i + int k + 2" by blast
      have "k = 0"
      proof (rule ccontr)
        assume "k \<noteq> 0"
        then have "0 < k" by simp
        with k(1) have "\<not> list_all (\<lambda>cell. strip cell = []) ((row # rows) ! 0)" by blast
        with True show False by simp
      qed
      with k(2) show "next_row = i + 2" by simp
    next
      assume "next_row = i + 2"
      with True show "\<exists>k < length (row # rows).
          list_all (\<lambda>cell. strip cell = []) ((row # rows) ! k)
        \<and> (\<forall>j < k. \<not> list_all (\<lambda>cell. strip cell = []) ((row # rows) ! j))
        \<and> next_row = i + int k + 2"
        by (intro exI [of _ 0]) simp
    qed
    with True show ?thesis by auto
  next
    case False
    have "(\<exists>k < length (row # rows). list_all (\<lambda>cell. strip cell = []) ((row # rows) ! k)
        \<and> (\<forall>j < k. \<not> list_all (\<lambda>cell. strip cell = []) ((row # rows) ! j))
        \<and> next_row = i + int k + 2) \<longleftrightarrow>
       (\<exists>k < length rows. list_all (\<lambda>cell. strip cell = []) (rows ! k)
        \<and> (\<forall>j < k. \<not> list_all (\<lambda>cell. strip cell = []) (rows ! j))
        \<and> next_row = (i + 1) + int k + 2)"
    proof
      assume "\<exists>k < length (row # rows). list_all (\<lambda>cell. strip cell = []) ((row # rows) ! k)
        \<and> (\<forall>j < k. \<not> list_all (\<lambda>cell. strip cell = []) ((row # rows) ! j))
        \<and> next_row = i + int k + 2"
      then obtain k where k: "k < length (row # rows)"
        "list_all (\<lambda>cell. strip cell = []) ((row # rows) ! k)"
        "\<forall>j < k. \<not> list_all (\<lambda>cell. strip cell = []) ((row # rows) ! j)"
        "next_row = i + int k + 2" by blast
      from k(2) False obtain k' where k': "k = Suc k'" by (cases k) auto
      have "\<forall>j < k'. \<not> list_all (\<lambda>cell. strip cell = []) (rows ! j)"
      proof (intro allI impI)
        fix j assume "j < k'"
        then have "Suc j < k" using k' by simp
        with k(3) have "\<not> list_all (\<lambda>cell. strip cell = []) ((row # rows) ! Suc j)" by blast
        then show "\<not> list_all (\<lambda>cell. strip cell = []) (rows ! j)" by simp
      qed
      with k k' show "\<exists>k < length rows. list_all (\<lambda>cell. strip cell = []) (rows ! k)
        \<and> (\<forall>j < k. \<not> list_all (\<lambda>cell. strip cell = []) (rows ! j))
        \<and> next_row = (i + 1) + int k + 2"
        by (intro exI [of _ k']) simp
    next
      assume "\<exists>k < length rows. list_all (\<lambda>cell. strip cell = []) (rows ! k)
        \<and> (\<forall>j < k. \<not> list_all (\<lambda>cell. strip cell = []) (rows ! j))
        \<and> next_row = (i + 1) + int k + 2"
      then obtain k where k: "k < length rows"
        "list_all (\<lambda>cell. strip cell = []) (rows ! k)"
        "\<forall>j < k. \<not> list_all (\<lambda>cell. strip cell = []) (rows ! j)"
        "next_row = (i + 1) + int k + 2" by blast
      have "\<forall>j < Suc k. \<not> list_all (\<lambda>cell. strip cell = []) ((row # rows) ! j)"
      proof (intro allI impI)
        fix j assume "j < Suc k"
        then show "\<not> list_all (\<lambda>cell. strip cell = []) ((row # rows) ! j)"
          using False k(3) by (cases j) auto
      qed
      with k show "\<exists>k < length (row # rows).
          list_all (\<lambda>cell. strip cell = []) ((row # rows) ! k)
        \<and> (\<forall>j < k. \<not> list_all (\<lambda>cell. strip cell = []) ((row # rows) ! j))
        \<and> next_row = i + int k + 2"
        by (intro exI [of _ "Suc k"]) simp
    qed
    with False Cons.IH [of "i + 1"] show ?thesis by simp
  qed
qed

lemma scan_log_None:
  "scan_log i rows = None \<longleftrightarrow>
     (\<forall>k < length rows. \<not> list_all (\<lambda>cell. strip cell = []) (rows ! k))"
proof (induction rows arbitrary: i)
  case Nil
  then show ?case by simp
next
  case (Cons row rows)
  show ?case
  proof (cases "list_all (\<lambda>cell. strip cell = []) row")
    case True
    then show ?thesis by (auto intro: exI [of _ 0])
  next
    case False
    have "(\<forall>k < length (row # rows). \<not> list_all (\<lambda>cell. strip cell = []) ((row # rows) ! k))
      \<longleftrightarrow> (\<forall>k < length rows. \<not> list_all (\<lambda>cell. strip cell = []) (rows ! k))"
      using False by (auto simp: nth_Cons split: nat.splits)
    with False Cons.IH [of "i + 1"] show ?thesis by simp
  qed
qed

lemma find_first_empty_log_row_result:
  "find_first_empty_log_row (Some sh) =
     Inr (case scan_log 0 (get_values sh ''A2:D1000'') of
            Some empty_row_index \<Rightarrow> empty_row_index
          | None \<Rightarrow> int (length (get_values sh ''A2:D1000'')) + 2)"
  by (simp add: find_first_empty_log_row_def COL_LOG_FECHA_def COL_LOG_ARTICULO_def
      split: option.split)

lemma find_first_empty_log_row_ge_2:
  "find_first_empty_log_row (Some sh) = Inr next_row \<Longrightarrow> 2 \<le> next_row"
  by (auto simp: find_first_empty_log_row_result scan_log_Some split: option.splits)

lemma reply_not_write [simp]: "\<not> is_write (reply callback_query msg)"
  by (simp add: reply_def)

lemma reply_not_render [simp]: "\<not> is_render (reply callback_query msg)"
  by (simp add: reply_def)

lemma register_payment_fully_paid:
  assumes "total_cuotas credit \<le> cuotas_abonadas_antes credit"
  shows "register_payment sheet callback_query fecha_hora fecha_log next_row credit cuotas_a_pagar =
     [reply callback_query
        (CreditFullyPaid (articulo credit) (codigo credit) (nombre credit) (apellido credit)
           (total_cuotas credit))]"
  using assms by (simp add: register_payment_def Let_def)

lemma register_payment_exceeds:
  assumes "cuotas_abonadas_antes credit < total_cuotas credit"
    and "total_cuotas credit - cuotas_abonadas_antes credit < cuotas_a_pagar"
  shows "register_payment sheet callback_query fecha_hora fecha_log next_row credit cuotas_a_pagar =
     [reply callback_query
        (PaymentExceedsRemaining (articulo credit) (codigo credit) (nombre credit)
           (apellido credit) cuotas_a_pagar
           (total_cuotas credit - cuotas_abonadas_antes credit))]"
  using assms by (simp add: register_payment_def Let_def)

lemma register_payment_feasible:
  assumes "cuotas_abonadas_antes credit < total_cuotas credit"
    and "cuotas_a_pagar \<le> total_cuotas credit - cuotas_abonadas_antes credit"
  shows "register_payment sheet callback_query fecha_hora fecha_log next_row credit cuotas_a_pagar =
     [GenerateTicketImage
        (make_ticket fecha_hora (remito_number next_row credit) credit cuotas_a_pagar),
      SendPhoto
        (make_ticket fecha_hora (remito_number next_row credit) credit cuotas_a_pagar)]
     @ (case log_payment_and_update_credit sheet fecha_log credit cuotas_a_pagar of
          Inl e \<Rightarrow> [reply callback_query (error_message e)]
        | Inr writes \<Rightarrow>
            writes @ [reply callback_query (PaymentRegistered cuotas_a_pagar (articulo credit))])"
  using assms by (simp add: register_payment_def Let_def)

lemma log_payment_result:
  "log_payment_and_update_credit (Some sh) fecha_log credit cuotas_a_pagar =
     (if cuotas_a_pagar \<le> 0 then Inl (ValueError InvalidCantidadCuotasPagadas)
      else (case find_first_empty_log_row (Some sh) of
              Inl e \<Rightarrow> Inl RuntimeError
            | Inr log_row_to_write \<Rightarrow>
                Inr [SheetUpdate (log_range_to_update log_row_to_write)
                       (log_entry_data fecha_log credit cuotas_a_pagar)]))"
  by (simp add: log_payment_and_update_credit_def)

lemma generate_and_send_receipt_loaded:
  assumes "get_credit_data (Some sh) r = Inr credit"
    and "find_first_empty_log_row (Some sh) = Inr next_row"
  shows "generate_and_send_receipt (Some sh) callback_query fecha_hora fecha_log r cuotas_a_pagar =
     register_payment (Some sh) callback_query fecha_hora fecha_log (Some next_row) credit
       cuotas_a_pagar"
  using assms by (simp add: generate_and_send_receipt_def)

lemma find_first_empty_log_row_total:
  "\<exists>next_row. find_first_empty_log_row (Some sh) = Inr next_row"
  by (simp add: find_first_empty_log_row_result)

lemma get_credit_data_connected:
  "get_credit_data sheet r = Inr credit \<Longrightarrow> \<exists>sh. sheet = Some sh"
  by (cases sheet) (simp_all add: get_credit_data_def)

lemma get_credit_data_valid:
  assumes "get_credit_data sheet r = Inr credit"
  shows "id_articulo credit \<noteq> []" "id_articulo credit \<noteq> ''N/A''"
    "0 < importe_cuota credit" "0 < total_cuotas credit"
  using assms
  by (auto simp: get_credit_data_def Let_def split: option.splits sum.splits if_splits)

lemma writes_of_run:
  "filter is_write
     (generate_and_send_receipt sheet callback_query fecha_hora fecha_log r cuotas_a_pagar) = []
   \<or> (\<exists>next_row credit. find_first_empty_log_row sheet = Inr next_row
        \<and> get_credit_data sheet r = Inr credit
        \<and> filter is_write
             (generate_and_send_receipt sheet callback_query fecha_hora fecha_log r
                cuotas_a_pagar) =
           [SheetUpdate (log_range_to_update next_row)
              (log_entry_data fecha_log credit cuotas_a_pagar)])"
proof (cases sheet)
  case None
  then show ?thesis
    by (simp add: generate_and_send_receipt_def get_credit_data_def)
next
  case (Some sh)
  obtain next_row where nr: "find_first_empty_log_row (Some sh) = Inr next_row"
    using find_first_empty_log_row_total by blast
  show ?thesis
  proof (cases "get_credit_data (Some sh) r")
    case (Inl e)
    then show ?thesis using Some by (simp add: generate_and_send_receipt_def)
  next
    case (Inr credit)
    note run = generate_and_send_receipt_loaded [OF Inr nr]
    consider (paid) "total_cuotas credit \<le> cuotas_abonadas_antes credit"
      | (exceeds) "cuotas_abonadas_antes credit < total_cuotas credit"
          "total_cuotas credit - cuotas_abonadas_antes credit < cuotas_a_pagar"
      | (feasible) "cuotas_abonadas_antes credit < total_cuotas credit"
          "cuotas_a_pagar \<le> total_cuotas credit - cuotas_abonadas_antes credit"
      by linarith
    then show ?thesis
    proof cases
      case paid
      then show ?thesis using Some by (simp add: run register_payment_fully_paid)
    next
      case exceeds
      then show ?thesis using Some by (simp add: run register_payment_exceeds)
    next
      case feasible
      show ?thesis
      proof (cases "cuotas_a_pagar \<le> 0")
        case True
        then show ?thesis
          using Some by (simp add: run register_payment_feasible [OF feasible] log_payment_result)
      next
        case False
        then show ?thesis
          using Some Inr nr
          by (simp add: run register_payment_feasible [OF feasible] log_payment_result)
      qed
    qed
  qed
qed

lemma example_loaded: "get_credit_data (Some example_sheet) 2 = Inr example_credit"
  by code_simp

lemma lettered_id_loaded: "get_credit_data (Some example_sheet) 6 = Inr lettered_id_credit"
  by code_simp

lemma example_next_row: "find_first_empty_log_row (Some example_sheet) = Inr 3"
  by code_simp

text \<open>
  Claim C2. When the loaded credit has fewer installments paid than in total and the
  request asks for more than remain, the workflow only reports
  \<open>PaymentExceedsRemaining\<close> with the requested and the remaining count: it writes no
  log entry and does not call the renderer.
\<close>

theorem payment_exceeding_remaining_rejected:
  assumes "get_credit_data sheet r = Inr credit"
    and "cuotas_abonadas_antes credit < total_cuotas credit"
    and "total_cuotas credit - cuotas_abonadas_antes credit < cuotas_a_pagar"
  shows "generate_and_send_receipt sheet callback_query fecha_hora fecha_log r cuotas_a_pagar =
      [reply callback_query
         (PaymentExceedsRemaining (articulo credit) (codigo credit) (nombre credit)
            (apellido credit) cuotas_a_pagar
            (total_cuotas credit - cuotas_abonadas_antes credit))]
    \<and> filter is_write
        (generate_and_send_receipt sheet callback_query fecha_hora fecha_log r cuotas_a_pagar) = []
    \<and> filter is_render
        (generate_and_send_receipt sheet callback_query fecha_hora fecha_log r cuotas_a_pagar) = []"
proof -
  obtain sh where sh: "sheet = Some sh"
    using assms(1) get_credit_data_connected by blast
  obtain next_row where "find_first_empty_log_row (Some sh) = Inr next_row"
    using find_first_empty_log_row_total by blast
  then have "generate_and_send_receipt sheet callback_query fecha_hora fecha_log r cuotas_a_pagar =
      [reply callback_query
         (PaymentExceedsRemaining (articulo credit) (codigo credit) (nombre credit)
            (apellido credit) cuotas_a_pagar
            (total_cuotas credit - cuotas_abonadas_antes credit))]"
    using assms unfolding sh
    by (simp add: generate_and_send_receipt_loaded register_payment_exceeds)
  then show ?thesis by simp
qed

theorem payment_exceeding_remaining_rejected_witness:
  "generate_and_send_receipt (Some example_sheet) True ''04/11/2026 - 10:00:00'' ''04/11/2026''
     2 10 = [EditMessage (PaymentExceedsRemaining ''TV'' ''C1'' ''Ana'' ''Diaz'' 10 9)]"
proof -
  have "cuotas_abonadas_antes example_credit < total_cuotas example_credit"
    "total_cuotas example_credit - cuotas_abonadas_antes example_credit < 10"
    by (simp_all add: example_credit_def)
  from payment_exceeding_remaining_rejected [OF example_loaded this]
  show ?thesis by (simp add: example_credit_def reply_def)
qed

text \<open>
  Claim C3, as stated, fails: \<open>get_credit_data\<close> raises on rows whose installments-paid
  count equals their total. Row 2 of \<open>rejected_sheet\<close> counts 0 paid of 0 and is
  refused for its total; row 3 counts 12 paid of 12 and is refused for its missing
  item code.
\<close>

theorem fully_paid_row_load_counterexample:
  "get_cell_int zero_total_row COL_MASTER_TOTAL_CUOTAS 0 = Inr 0 \<and>
   get_cell_int zero_total_row COL_MASTER_CUOTAS_ABONADAS 0 = Inr 0 \<and>
   get_credit_data (Some rejected_sheet) 2 = Inl (ValueError InvalidTotalCuotas) \<and>
   get_cell_int no_code_row COL_MASTER_TOTAL_CUOTAS 0 = Inr 12 \<and>
   get_cell_int no_code_row COL_MASTER_CUOTAS_ABONADAS 0 = Inr 12 \<and>
   get_credit_data (Some rejected_sheet) 3 = Inl (ValueError MissingCodigoArticulo)"
  by code_simp

text \<open>
  Claim C3, amended. A non-empty master row whose parsed record passes the loader's
  four checks is loaded without an exception whatever its installments-paid count;
  and when that count equals or exceeds the total, the workflow on the loaded
  record only reports \<open>CreditFullyPaid\<close>: it writes no log entry and renders no
  receipt.
\<close>

theorem fully_paid_credit_outcome:
  assumes "row_values sh r \<noteq> []"
    and "read_credit r (row_values sh r) = Inr credit"
    and "id_articulo credit \<noteq> []" and "id_articulo credit \<noteq> ''N/A''"
    and "codigo credit \<noteq> []" and "codigo credit \<noteq> ''N/A''"
    and "0 < importe_cuota credit" and "0 < total_cuotas credit"
  shows "get_credit_data (Some sh) r = Inr credit \<and>
    (total_cuotas credit \<le> cuotas_abonadas_antes credit \<longrightarrow>
       generate_and_send_receipt (Some sh) callback_query fecha_hora fecha_log r cuotas_a_pagar =
         [reply callback_query
            (CreditFullyPaid (articulo credit) (codigo credit) (nombre credit)
               (apellido credit) (total_cuotas credit))]
       \<and> filter is_write
           (generate_and_send_receipt (Some sh) callback_query fecha_hora fecha_log r
              cuotas_a_pagar) = []
       \<and> filter is_render
           (generate_and_send_receipt (Some sh) callback_query fecha_hora fecha_log r
              cuotas_a_pagar) = [])"
proof -
  have loaded: "get_credit_data (Some sh) r = Inr credit"
    using assms by (simp add: get_credit_data_cases)
  obtain next_row where nr: "find_first_empty_log_row (Some sh) = Inr next_row"
    using find_first_empty_log_row_total by blast
  have "generate_and_send_receipt (Some sh) callback_query fecha_hora fecha_log r cuotas_a_pagar =
         [reply callback_query
            (CreditFullyPaid (articulo credit) (codigo credit) (nombre credit)
               (apellido credit) (total_cuotas credit))]"
    if "total_cuotas credit \<le> cuotas_abonadas_antes credit"
    using that by (simp add: generate_and_send_receipt_loaded [OF loaded nr]
        register_payment_fully_paid)
  then show ?thesis using loaded by simp
qed

theorem fully_paid_credit_outcome_witness:
  "get_credit_data (Some example_sheet) 3 = Inr paid_up_credit \<and>
   generate_and_send_receipt (Some example_sheet) False ''04/11/2026 - 10:00:00''
     ''04/11/2026'' 3 1 = [SendMessage (CreditFullyPaid ''Sofa'' ''C3'' ''Ana'' ''Diaz'' 12)]"
proof -
  have row: "row_values example_sheet 3 \<noteq> []"
    by (simp add: example_sheet_def paid_up_row_def)
  have parsed: "read_credit 3 (row_values example_sheet 3) = Inr paid_up_credit"
    by code_simp
  have ok: "id_articulo paid_up_credit \<noteq> []" "id_articulo paid_up_credit \<noteq> ''N/A''"
    "codigo paid_up_credit \<noteq> []" "codigo paid_up_credit \<noteq> ''N/A''"
    "0 < importe_cuota paid_up_credit" "0 < total_cuotas paid_up_credit"
    by (simp_all add: paid_up_credit_def)
  have full: "total_cuotas paid_up_credit \<le> cuotas_abonadas_antes paid_up_credit"
    by (simp add: paid_up_credit_def)
  from fully_paid_credit_outcome [OF row parsed ok, of False
      "''04/11/2026 - 10:00:00''" "''04/11/2026''" 1] full
  show ?thesis by (simp add: paid_up_credit_def reply_def)
qed

lemma show_nat_length_le:
  "0 < m \<Longrightarrow> n < 10 ^ m \<Longrightarrow> length (show_nat n) \<le> m"
proof (induction n arbitrary: m rule: show_nat.induct)
  case (1 n)
  show ?case
  proof (cases "n < 10")
    case True
    then show ?thesis using "1.prems" by (subst show_nat.simps) simp
  next
    case False
    then obtain m' where m: "m = Suc m'" "0 < m'"
      using "1.prems" by (cases m; cases "m - 1") auto
    have "n div 10 < 10 ^ m'"
      using "1.prems"(2) m by (simp add: less_mult_imp_div_less mult.commute)
    then have "length (show_nat (n div 10)) \<le> m'"
      using "1.IH" [OF False m(2)] by simp
    then show ?thesis using False m by (subst show_nat.simps) simp
  qed
qed

lemma fmt_d_length:
  assumes "0 \<le> n" and "n < 10 ^ width" and "0 < width"
  shows "length (fmt_d width n) = width"
proof -
  have "nat \<bar>n\<bar> < 10 ^ width"
    using assms(1,2) by (simp add: nat_less_iff)
  then have "length (show_nat (nat \<bar>n\<bar>)) \<le> width"
    using assms(3) show_nat_length_le by blast
  then show ?thesis using assms(1) by (simp add: fmt_d_def Let_def)
qed

lemma log_range_letters:
  "log_range_to_update next_row = ''A'' @ py_str next_row @ '':I'' @ py_str next_row"
  by (simp add: log_range_to_update_def COL_LOG_FECHA_def COL_LOG_CANT_CUOTAS_PAGADAS_def)

lemma remito_number_loaded:
  assumes "get_credit_data sheet r = Inr credit"
    and "find_first_empty_log_row sheet = Inr next_row"
  shows "remito_number (Some next_row) credit =
     (case py_int (id_articulo credit) of
        None \<Rightarrow> ''Error/Format''
      | Some n \<Rightarrow> fmt_d 3 n @ ''/'' @ fmt_d 4 next_row)"
proof -
  obtain sh where sh: "sheet = Some sh"
    using assms(1) get_credit_data_connected by blast
  have "next_row \<noteq> 0"
    using assms(2) find_first_empty_log_row_ge_2 unfolding sh by fastforce
  then show ?thesis
    using get_credit_data_valid(1,2) [OF assms(1)] by (simp add: remito_number_def)
qed

lemma accepted_run:
  assumes "get_credit_data (Some sh) r = Inr credit"
    and "find_first_empty_log_row (Some sh) = Inr next_row"
    and "cuotas_abonadas_antes credit < total_cuotas credit"
    and "0 < cuotas_a_pagar"
    and "cuotas_a_pagar \<le> total_cuotas credit - cuotas_abonadas_antes credit"
  shows "generate_and_send_receipt (Some sh) callback_query fecha_hora fecha_log r cuotas_a_pagar =
     [GenerateTicketImage
        (make_ticket fecha_hora (remito_number (Some next_row) credit) credit cuotas_a_pagar),
      SendPhoto
        (make_ticket fecha_hora (remito_number (Some next_row) credit) credit cuotas_a_pagar),
      SheetUpdate (log_range_to_update next_row)
        (log_entry_data fecha_log credit cuotas_a_pagar),
      reply callback_query (PaymentRegistered cuotas_a_pagar (articulo credit))]"
  using assms
  by (simp add: generate_and_send_receipt_loaded register_payment_feasible log_payment_result)

text \<open>
  Claim C4. For an accepted payment (some installments remain, and the request is
  positive and at most what remains) the workflow renders and delivers a receipt
  whose paid-to-date amount is the per-installment amount times the installments
  paid before plus those paid now, whose amount due now is the per-installment
  amount times the installments paid now, and whose range label is
  \<open>start to end of total\<close> with \<open>start\<close> the installments paid before plus 1 and
  \<open>end\<close> the installments paid before plus those paid now, or \<open>start of total\<close> when
  one installment is paid. With 12 installments in total, 3 paid, 1500.00 per
  installment and 2 paid now, that is 7500.00, 3000.00 and \<open>4 to 5 of 12\<close>.
\<close>

theorem accepted_payment_receipt:
  assumes "get_credit_data sheet r = Inr credit"
    and "cuotas_abonadas_antes credit < total_cuotas credit"
    and "0 < cuotas_a_pagar"
    and "cuotas_a_pagar \<le> total_cuotas credit - cuotas_abonadas_antes credit"
  shows "\<exists>t rest.
     generate_and_send_receipt sheet callback_query fecha_hora fecha_log r cuotas_a_pagar =
       GenerateTicketImage t # SendPhoto t # rest
     \<and> saldo_pagado_total_actualizado t =
         importe_cuota credit * of_int (cuotas_abonadas_antes credit + cuotas_a_pagar)
     \<and> total_monto_pago_actual t = importe_cuota credit * of_int cuotas_a_pagar
     \<and> rango_cuotas_pagadas_str t =
         (if cuotas_a_pagar = 1
          then py_str (cuotas_abonadas_antes credit + 1) @ '' of ''
               @ py_str (total_cuotas credit)
          else py_str (cuotas_abonadas_antes credit + 1) @ '' to ''
               @ py_str (cuotas_abonadas_antes credit + cuotas_a_pagar) @ '' of ''
               @ py_str (total_cuotas credit))"
proof -
  obtain sh where sh: "sheet = Some sh"
    using assms(1) get_credit_data_connected by blast
  obtain next_row where nr: "find_first_empty_log_row (Some sh) = Inr next_row"
    using find_first_empty_log_row_total by blast
  define t where
    "t = make_ticket fecha_hora (remito_number (Some next_row) credit) credit cuotas_a_pagar"
  have run: "generate_and_send_receipt sheet callback_query fecha_hora fecha_log r cuotas_a_pagar =
      GenerateTicketImage t # SendPhoto t #
      [SheetUpdate (log_range_to_update next_row) (log_entry_data fecha_log credit cuotas_a_pagar),
       reply callback_query (PaymentRegistered cuotas_a_pagar (articulo credit))]"
    using accepted_run [OF assms(1) [unfolded sh] nr assms(2-4)] by (simp add: sh t_def)
  have "saldo_pagado_total_actualizado t =
         importe_cuota credit * of_int (cuotas_abonadas_antes credit + cuotas_a_pagar)"
    "total_monto_pago_actual t = importe_cuota credit * of_int cuotas_a_pagar"
    "rango_cuotas_pagadas_str t =
         (if cuotas_a_pagar = 1
          then py_str (cuotas_abonadas_antes credit + 1) @ '' of ''
               @ py_str (total_cuotas credit)
          else py_str (cuotas_abonadas_antes credit + 1) @ '' to ''
               @ py_str (cuotas_abonadas_antes credit + cuotas_a_pagar) @ '' of ''
               @ py_str (total_cuotas credit))"
    by (simp_all add: t_def make_ticket_def rango_cuotas_pagadas_def Let_def)
  with run show ?thesis by blast
qed

theorem accepted_payment_receipt_witness:
  "total_cuotas example_credit = 12 \<and> cuotas_abonadas_antes example_credit = 3 \<and>
   importe_cuota example_credit = 1500 \<and>
   (\<exists>t rest.
      generate_and_send_receipt (Some example_sheet) True ''04/11/2026 - 10:00:00''
        ''04/11/2026'' 2 2 = GenerateTicketImage t # SendPhoto t # rest
      \<and> saldo_pagado_total_actualizado t = 7500
      \<and> total_monto_pago_actual t = 3000
      \<and> rango_cuotas_pagadas_str t = ''4 to 5 of 12'')"
proof -
  have pre: "cuotas_abonadas_antes example_credit < total_cuotas example_credit"
    "(0::int) < 2" "2 \<le> total_cuotas example_credit - cuotas_abonadas_antes example_credit"
    by (simp_all add: example_credit_def)
  have strs: "py_str 4 = ''4''" "py_str 5 = ''5''" "py_str 12 = ''12''"
    by code_simp+
  from accepted_payment_receipt [OF example_loaded pre, of True
      "''04/11/2026 - 10:00:00''" "''04/11/2026''"]
  obtain t rest where
    "generate_and_send_receipt (Some example_sheet) True ''04/11/2026 - 10:00:00''
        ''04/11/2026'' 2 2 = GenerateTicketImage t # SendPhoto t # rest"
    "saldo_pagado_total_actualizado t = 7500"
    "total_monto_pago_actual t = 3000"
    "rango_cuotas_pagadas_str t = ''4 to 5 of 12''"
    by (auto simp: example_credit_def strs)
  then show ?thesis by (auto simp: example_credit_def)
qed

text \<open>
  Claim C5. Whatever the connection, the row and the request, a run of the payment
  workflow calls \<open>sheet.update\<close> at most once, and then on the range from column
  \<open>A\<close> to column \<open>I\<close> of the next log row, with nine cells. Columns \<open>A\<close> to \<open>I\<close>
  have the indices 0 to 8; the master table starts at column \<open>M\<close>, index 12, and its
  installments-paid counter is column \<open>X\<close>, index 23. The lookups, the loader and the
  scan for the next log row only read.
\<close>

theorem only_write_is_log_row:
  "(filter is_write
      (generate_and_send_receipt sheet callback_query fecha_hora fecha_log r cuotas_a_pagar) = []
    \<or> (\<exists>next_row cells.
          find_first_empty_log_row sheet = Inr next_row \<and> length cells = 9
          \<and> filter is_write
               (generate_and_send_receipt sheet callback_query fecha_hora fecha_log r
                  cuotas_a_pagar) =
             [SheetUpdate (''A'' @ py_str next_row @ '':I'' @ py_str next_row) cells]))
   \<and> col_to_index COL_LOG_FECHA = 0 \<and> col_to_index COL_LOG_CANT_CUOTAS_PAGADAS = 8
   \<and> col_to_index COL_MASTER_NOMBRE = 12 \<and> col_to_index COL_MASTER_CUOTAS_ABONADAS = 23"
proof -
  have "length (log_entry_data fecha_log credit cuotas_a_pagar) = 9" for credit
    by (simp add: log_entry_data_def)
  then show ?thesis
    using writes_of_run [of sheet callback_query fecha_hora fecha_log r cuotas_a_pagar]
    by (auto simp: log_range_letters master_col_indices log_col_indices)
qed

theorem only_write_is_log_row_witness:
  "find_first_empty_log_row (Some example_sheet) = Inr 3 \<and>
   filter is_write
     (generate_and_send_receipt (Some example_sheet) True ''04/11/2026 - 10:00:00''
        ''04/11/2026'' 2 2) =
   [SheetUpdate ''A3:I3''
      [''04/11/2026'', ''Ana'', ''Diaz'', ''TV'', ''7'', ''Shop'', ''Main St 1'',
       ''1500,00'', ''2'']]"
proof -
  have pre: "cuotas_abonadas_antes example_credit < total_cuotas example_credit"
    "(0::int) < 2" "2 \<le> total_cuotas example_credit - cuotas_abonadas_antes example_credit"
    by (simp_all add: example_credit_def)
  have cells: "log_entry_data ''04/11/2026'' example_credit 2 =
      [''04/11/2026'', ''Ana'', ''Diaz'', ''TV'', ''7'', ''Shop'', ''Main St 1'',
       ''1500,00'', ''2'']"
    by (simp add: log_entry_data_def example_credit_def fmt_2f_def round_half_even_def
        show_nat.simps digit_char_def replace_char_def py_str_def)
  have three: "py_str 3 = ''3''"
    by (simp add: py_str_def show_nat.simps digit_char_def)
  have run: "filter is_write
     (generate_and_send_receipt (Some example_sheet) True ''04/11/2026 - 10:00:00''
        ''04/11/2026'' 2 2) \<noteq> []"
    by (simp add: accepted_run [OF example_loaded example_next_row pre])
  from only_write_is_log_row [of "Some example_sheet" True "''04/11/2026 - 10:00:00''"
      "''04/11/2026''" 2 2] run
  obtain cells' where w: "length cells' = (9::nat)"
    "filter is_write
       (generate_and_send_receipt (Some example_sheet) True ''04/11/2026 - 10:00:00''
          ''04/11/2026'' 2 2) = [SheetUpdate ''A3:I3'' cells']"
    by (auto simp: example_next_row three)
  from w(2) have "cells' = log_entry_data ''04/11/2026'' example_credit 2"
    by (simp add: accepted_run [OF example_loaded example_next_row pre])
  with w(2) cells show ?thesis by (simp add: example_next_row)
qed

text \<open>
  Claim C7. With a connection, the next log row is the sheet row (the scan starts at
  row 2) of the first scanned row of the log table whose cells are all blank after
  trimming, or one past the last scanned row when every scanned row holds something.
  For an accepted payment this one row is the row of the range the log entry is
  written to and the second part of the receipt number, which is the item identifier
  as an integer padded to three digits, a slash, and the log row padded to four.
  When the item identifier is not an integer the receipt number is \<open>Error/Format\<close>,
  and the receipt is still rendered and delivered, the log entry written and the
  payment confirmed.
\<close>

theorem next_log_row_and_receipt_number:
  "\<exists>next_row.
     find_first_empty_log_row (Some sh) = Inr next_row
     \<and> ((\<exists>k < length (get_values sh ''A2:D1000'').
            list_all (\<lambda>cell. strip cell = []) (get_values sh ''A2:D1000'' ! k)
            \<and> (\<forall>j < k. \<not> list_all (\<lambda>cell. strip cell = []) (get_values sh ''A2:D1000'' ! j))
            \<and> next_row = int k + 2)
         \<or> ((\<forall>k < length (get_values sh ''A2:D1000'').
               \<not> list_all (\<lambda>cell. strip cell = []) (get_values sh ''A2:D1000'' ! k))
             \<and> next_row = int (length (get_values sh ''A2:D1000'')) + 2))
     \<and> (get_credit_data (Some sh) r = Inr credit
          \<and> cuotas_abonadas_antes credit < total_cuotas credit
          \<and> 0 < cuotas_a_pagar
          \<and> cuotas_a_pagar \<le> total_cuotas credit - cuotas_abonadas_antes credit
        \<longrightarrow>
          (\<exists>t. generate_and_send_receipt (Some sh) callback_query fecha_hora fecha_log r
                 cuotas_a_pagar =
               [GenerateTicketImage t, SendPhoto t,
                SheetUpdate (''A'' @ py_str next_row @ '':I'' @ py_str next_row)
                  (log_entry_data fecha_log credit cuotas_a_pagar),
                reply callback_query (PaymentRegistered cuotas_a_pagar (articulo credit))]
             \<and> remito_number_str t =
                 (case py_int (id_articulo credit) of
                    None \<Rightarrow> ''Error/Format''
                  | Some n \<Rightarrow> fmt_d 3 n @ ''/'' @ fmt_d 4 next_row)))
     \<and> (0 \<le> n \<and> n \<le> 999 \<longrightarrow> length (fmt_d 3 n) = 3)
     \<and> (next_row \<le> 9999 \<longrightarrow> length (fmt_d 4 next_row) = 4)"
proof -
  define preview where "preview = get_values sh ''A2:D1000''"
  obtain next_row where nr: "find_first_empty_log_row (Some sh) = Inr next_row"
    using find_first_empty_log_row_total by blast
  have ge2: "2 \<le> next_row" using nr by (rule find_first_empty_log_row_ge_2)
  have position:
    "(\<exists>k < length preview. list_all (\<lambda>cell. strip cell = []) (preview ! k)
        \<and> (\<forall>j < k. \<not> list_all (\<lambda>cell. strip cell = []) (preview ! j))
        \<and> next_row = int k + 2)
     \<or> ((\<forall>k < length preview. \<not> list_all (\<lambda>cell. strip cell = []) (preview ! k))
         \<and> next_row = int (length preview) + 2)"
  proof (cases "scan_log 0 preview")
    case None
    then have "next_row = int (length preview) + 2"
      using nr by (simp add: find_first_empty_log_row_result preview_def)
    with None show ?thesis by (simp add: scan_log_None)
  next
    case (Some found)
    then have "next_row = found"
      using nr by (simp add: find_first_empty_log_row_result preview_def)
    with Some have "scan_log 0 preview = Some next_row" by simp
    then show ?thesis by (simp add: scan_log_Some)
  qed
  have run: "\<exists>t. generate_and_send_receipt (Some sh) callback_query fecha_hora fecha_log r
                 cuotas_a_pagar =
               [GenerateTicketImage t, SendPhoto t,
                SheetUpdate (''A'' @ py_str next_row @ '':I'' @ py_str next_row)
                  (log_entry_data fecha_log credit cuotas_a_pagar),
                reply callback_query (PaymentRegistered cuotas_a_pagar (articulo credit))]
             \<and> remito_number_str t =
                 (case py_int (id_articulo credit) of
                    None \<Rightarrow> ''Error/Format''
                  | Some n \<Rightarrow> fmt_d 3 n @ ''/'' @ fmt_d 4 next_row)"
    if loaded: "get_credit_data (Some sh) r = Inr credit"
      and feasible: "cuotas_abonadas_antes credit < total_cuotas credit" "0 < cuotas_a_pagar"
        "cuotas_a_pagar \<le> total_cuotas credit - cuotas_abonadas_antes credit"
  proof -
    define t where
      "t = make_ticket fecha_hora (remito_number (Some next_row) credit) credit cuotas_a_pagar"
    have "remito_number_str t = remito_number (Some next_row) credit"
      by (simp add: t_def make_ticket_def)
    then have "remito_number_str t =
        (case py_int (id_articulo credit) of
           None \<Rightarrow> ''Error/Format''
         | Some n \<Rightarrow> fmt_d 3 n @ ''/'' @ fmt_d 4 next_row)"
      by (simp add: remito_number_loaded [OF loaded nr])
    moreover have "generate_and_send_receipt (Some sh) callback_query fecha_hora fecha_log r
                 cuotas_a_pagar =
               [GenerateTicketImage t, SendPhoto t,
                SheetUpdate (''A'' @ py_str next_row @ '':I'' @ py_str next_row)
                  (log_entry_data fecha_log credit cuotas_a_pagar),
                reply callback_query (PaymentRegistered cuotas_a_pagar (articulo credit))]"
      using accepted_run [OF loaded nr feasible] by (simp add: t_def log_range_letters)
    ultimately show ?thesis by blast
  qed
  have w3: "length (fmt_d 3 n) = 3" if "0 \<le> n" "n \<le> 999"
    using that by (intro fmt_d_length) simp_all
  have w4: "length (fmt_d 4 next_row) = 4" if "next_row \<le> 9999"
    using that ge2 by (intro fmt_d_length) simp_all
  show ?thesis
    using nr position run w3 w4 unfolding preview_def by blast
qed

theorem next_log_row_and_receipt_number_witness:
  "find_first_empty_log_row (Some example_sheet) = Inr 3 \<and>
   (\<exists>t. generate_and_send_receipt (Some example_sheet) True ''04/11/2026 - 10:00:00''
          ''04/11/2026'' 2 2 =
        [GenerateTicketImage t, SendPhoto t,
         SheetUpdate ''A3:I3'' (log_entry_data ''04/11/2026'' example_credit 2),
         EditMessage (PaymentRegistered 2 ''TV'')]
      \<and> remito_number_str t = ''007/0003'') \<and>
   (\<exists>t. generate_and_send_receipt (Some example_sheet) True ''04/11/2026 - 10:00:00''
          ''04/11/2026'' 6 1 =
        [GenerateTicketImage t, SendPhoto t,
         SheetUpdate ''A3:I3'' (log_entry_data ''04/11/2026'' lettered_id_credit 1),
         EditMessage (PaymentRegistered 1 ''Bike'')]
      \<and> remito_number_str t = ''Error/Format'')"
proof -
  have three: "py_str 3 = ''3''"
    by (simp add: py_str_def show_nat.simps digit_char_def)
  have number: "py_int ''7'' = Some 7" "py_int ''X-7'' = None"
    by code_simp+
  have padded: "fmt_d 3 7 = ''007''" "fmt_d 4 3 = ''0003''"
    by (simp_all add: fmt_d_def show_nat.simps digit_char_def eval_nat_numeral)
  have pre2: "get_credit_data (Some example_sheet) 2 = Inr example_credit
      \<and> cuotas_abonadas_antes example_credit < total_cuotas example_credit
      \<and> (0::int) < 2
      \<and> 2 \<le> total_cuotas example_credit - cuotas_abonadas_antes example_credit"
    using example_loaded by (simp add: example_credit_def)
  have pre6: "get_credit_data (Some example_sheet) 6 = Inr lettered_id_credit
      \<and> cuotas_abonadas_antes lettered_id_credit < total_cuotas lettered_id_credit
      \<and> (0::int) < 1
      \<and> 1 \<le> total_cuotas lettered_id_credit - cuotas_abonadas_antes lettered_id_credit"
    using lettered_id_loaded by (simp add: lettered_id_credit_def)
  from next_log_row_and_receipt_number [of example_sheet 2 example_credit 2 True
      "''04/11/2026 - 10:00:00''" "''04/11/2026''" 7] pre2
  have first: "\<exists>t. generate_and_send_receipt (Some example_sheet) True
          ''04/11/2026 - 10:00:00'' ''04/11/2026'' 2 2 =
        [GenerateTicketImage t, SendPhoto t,
         SheetUpdate ''A3:I3'' (log_entry_data ''04/11/2026'' example_credit 2),
         EditMessage (PaymentRegistered 2 ''TV'')]
      \<and> remito_number_str t = ''007/0003''"
    by (auto simp: example_next_row three number padded example_credit_def reply_def)
  from next_log_row_and_receipt_number [of example_sheet 6 lettered_id_credit 1 True
      "''04/11/2026 - 10:00:00''" "''04/11/2026''" 7] pre6
  have second: "\<exists>t. generate_and_send_receipt (Some example_sheet) True
          ''04/11/2026 - 10:00:00'' ''04/11/2026'' 6 1 =
        [GenerateTicketImage t, SendPhoto t,
         SheetUpdate ''A3:I3'' (log_entry_data ''04/11/2026'' lettered_id_credit 1),
         EditMessage (PaymentRegistered 1 ''Bike'')]
      \<and> remito_number_str t = ''Error/Format''"
    by (auto simp: example_next_row three number lettered_id_credit_def reply_def)
  from first second example_next_row show ?thesis by blast
qed

end
